theory Spec2Isabelle
  imports Complex_Main "HOL-Library.Log_Nat"
begin

section \<open>The OCPP virtual charge point: connection and transaction simulator\<close>

text \<open>
  A shallow embedding of \<^verbatim>\<open>src/vcp.ts\<close> (class \<^verbatim>\<open>VCP\<close>) and of
  \<^verbatim>\<open>src/v16/transactionManager.ts\<close> (class \<^verbatim>\<open>TransactionManager\<close>).

  The program is single-threaded JavaScript: every method runs to completion before the
  next event is taken. A method is modelled as a function from the state of the process
  (the record \<open>world\<close>) to an outcome and the state left behind; a thrown exception
  is an outcome, and the state it leaves behind keeps every mutation made before the
  \<^verbatim>\<open>throw\<close>.

  Conventions of the embedding:
  \<^item> JavaScript values that travel in payloads are the datatype \<open>json\<close>, with
    \<open>JUndefined\<close> for \<^verbatim>\<open>undefined\<close>. A number in a payload is the rational that the
    double denotes. The numbers the program computes with are IEEE doubles (the type
    \<open>double\<close>), and each operation on them rounds as the standard prescribes.
  \<^item> The text of a frame is kept as the value it encodes: \<^verbatim>\<open>JSON.stringify\<close> is the
    normalisation \<open>stringify\<close>, and an inbound message is the result of
    \<^verbatim>\<open>JSON.parse\<close> on it (\<open>None\<close> when the text is not JSON).
  \<^item> Instants (\<^verbatim>\<open>new Date()\<close>) are milliseconds since the epoch; the clock
    \<open>now\<close> does not advance inside one method.
  \<^item> Calls to collaborators (logger, ledger, transport, admin socket, handlers) are
    recorded, in order, in the field \<open>trace\<close>; \<^verbatim>\<open>process.exit\<close> is an outcome.
    \<open>WsSend f\<close> says that \<^verbatim>\<open>this.ws.send\<close> was called with the frame \<open>f\<close>; what the
    websocket library then does with it is outside the model.
  \<^item> Modules of the repository that the sources at hand do not contain
    (\<^verbatim>\<open>ocppOutbox\<close>, \<^verbatim>\<open>jsonSchemaValidator\<close>, \<^verbatim>\<open>ocppMessageHandler\<close>,
    \<^verbatim>\<open>messageFactory\<close>) are either modelled from the specification, and marked so,
    or taken as parameters (the records \<open>externals\<close> and \<open>OcppMessageHandler\<close>).
  \<^item> The HTTP server of the dashboard, the heartbeat timer and the inbound side of the
    admin socket are left out: they touch none of the state below except through
    \<open>send\<close>.
\<close>

subsection \<open>JavaScript values\<close>

datatype json =
    JUndefined
  | JNull
  | JBool bool
  | JNum rat
  | JStr string
  | JArr "json list"
  | JObj "(string \<times> json) list"

text \<open>An object is an association list; the first binding of a key is the property.\<close>

datatype error =
    WebsocketNotInitialized
  | CloseNotOpened
  | UnknownMessageId json
  | UnrecognizedMessageType json
  | TypeError
  | SyntaxError
  | SchemaViolation
  | DuplicateCallId
  | OtherError string

text \<open>
  \<open>WebsocketNotInitialized\<close> is \<^verbatim>\<open>Error("Websocket not initialized. Call connect() first")\<close>,
  \<open>CloseNotOpened\<close> is \<^verbatim>\<open>Error("Trying to close a Websocket that was not opened. ...")\<close>,
  \<open>UnknownMessageId\<close> and \<open>UnrecognizedMessageType\<close> are the two errors of
  \<^verbatim>\<open>_onMessage\<close>; \<open>TypeError\<close> and \<open>SyntaxError\<close> are raised by the runtime;
  \<open>SchemaViolation\<close> is whatever the validators throw and \<open>DuplicateCallId\<close> what the
  ledger throws.
\<close>

datatype outcome = Returned | Threw error | Exited int

text \<open>Truthiness, as \<^verbatim>\<open>if (x)\<close>, \<^verbatim>\<open>x && y\<close> and \<^verbatim>\<open>x || y\<close> read a value.\<close>

fun truthy :: "json \<Rightarrow> bool" where
  "truthy JUndefined = False"
| "truthy JNull = False"
| "truthy (JBool b) = b"
| "truthy (JNum n) = (n \<noteq> 0)"
| "truthy (JStr s) = (s \<noteq> [])"
| "truthy (JArr xs) = True"
| "truthy (JObj kvs) = True"

text \<open>
  Property read \<^verbatim>\<open>x.k\<close>: a \<^verbatim>\<open>TypeError\<close> on \<^verbatim>\<open>undefined\<close> and \<^verbatim>\<open>null\<close>.
  Only the names the source reads are meant (\<^verbatim>\<open>status\<close>, \<^verbatim>\<open>meterValue\<close>,
  \<^verbatim>\<open>sampledValue\<close>, \<^verbatim>\<open>value\<close>, \<^verbatim>\<open>unit\<close>, \<^verbatim>\<open>unitOfMeasure\<close>,
  \<^verbatim>\<open>transactionId\<close>, \<^verbatim>\<open>length\<close>): none of them is inherited from a prototype
  except \<^verbatim>\<open>length\<close> of arrays and strings.
\<close>

fun getProp :: "json \<Rightarrow> string \<Rightarrow> error + json" where
  "getProp JUndefined k = Inl TypeError"
| "getProp JNull k = Inl TypeError"
| "getProp (JObj kvs) k = Inr (case map_of kvs k of None \<Rightarrow> JUndefined | Some v \<Rightarrow> v)"
| "getProp (JArr xs) k = Inr (if k = ''length'' then JNum (of_nat (length xs)) else JUndefined)"
| "getProp (JStr s) k = Inr (if k = ''length'' then JNum (of_nat (length s)) else JUndefined)"
| "getProp (JBool b) k = Inr JUndefined"
| "getProp (JNum n) k = Inr JUndefined"

text \<open>Element read \<^verbatim>\<open>x[0]\<close>.\<close>

fun getFirst :: "json \<Rightarrow> error + json" where
  "getFirst JUndefined = Inl TypeError"
| "getFirst JNull = Inl TypeError"
| "getFirst (JArr xs) = Inr (case xs of [] \<Rightarrow> JUndefined | x # _ \<Rightarrow> x)"
| "getFirst (JStr s) = Inr (case s of [] \<Rightarrow> JUndefined | c # _ \<Rightarrow> JStr [c])"
| "getFirst (JObj kvs) = Inr (case map_of kvs ''0'' of None \<Rightarrow> JUndefined | Some v \<Rightarrow> v)"
| "getFirst (JBool b) = Inr JUndefined"
| "getFirst (JNum n) = Inr JUndefined"

text \<open>
  \<^verbatim>\<open>JSON.stringify\<close>, seen through \<^verbatim>\<open>JSON.parse\<close>: inside an array
  \<^verbatim>\<open>undefined\<close> is written as \<^verbatim>\<open>null\<close>, a property whose value is
  \<^verbatim>\<open>undefined\<close> is dropped. At the top, \<^verbatim>\<open>JSON.stringify(undefined)\<close> is
  \<^verbatim>\<open>undefined\<close>, which \<^verbatim>\<open>JSON.parse\<close> refuses with a \<^verbatim>\<open>SyntaxError\<close>.
\<close>

fun stringify :: "json \<Rightarrow> json" where
  "stringify (JArr xs) = JArr (map (\<lambda>x. if x = JUndefined then JNull else stringify x) xs)"
| "stringify (JObj kvs) =
     JObj (map (\<lambda>(k, v). (k, stringify v)) (filter (\<lambda>(k, v). v \<noteq> JUndefined) kvs))"
| "stringify x = x"

definition parseStringify :: "json \<Rightarrow> error + json" where
  "parseStringify x = (if x = JUndefined then Inl SyntaxError else Inr (stringify x))"

text \<open>
  The array pattern \<^verbatim>\<open>const [type, ...rest] = data\<close>: arrays and strings are iterable,
  every other value raises a \<^verbatim>\<open>TypeError\<close>.
\<close>

fun headRest :: "json \<Rightarrow> error + json \<times> json list" where
  "headRest (JArr xs) = Inr (case xs of [] \<Rightarrow> (JUndefined, []) | x # r \<Rightarrow> (x, r))"
| "headRest (JStr s) =
     Inr (case s of [] \<Rightarrow> (JUndefined, []) | c # r \<Rightarrow> (JStr [c], map (\<lambda>d. JStr [d]) r))"
| "headRest x = Inl TypeError"

text \<open>The array pattern \<^verbatim>\<open>const [a, b, c] = rest\<close>: a missing element is \<^verbatim>\<open>undefined\<close>.\<close>

definition element :: "json list \<Rightarrow> nat \<Rightarrow> json" where
  "element xs i = (if i < length xs then xs ! i else JUndefined)"

subsection \<open>Double-precision numbers\<close>

text \<open>
  A finite double is kept as the rational it denotes, beside the two infinities and
  \<^verbatim>\<open>NaN\<close>. The sign of zero is not kept: no operation below tells the two zeros
  apart.
\<close>

datatype double = Finite rat | PlusInfinity | MinusInfinity | NaN

text \<open>The binary exponent of a positive number: \<open>2^k \<le> y < 2^(k+1)\<close> for \<open>k = ilog2 y\<close>.\<close>

definition ilog2 :: "rat \<Rightarrow> int" where
  "ilog2 y = (if 1 \<le> y then bitlen \<lfloor>y\<rfloor> - 1 else - bitlen (\<lceil>1 / y\<rceil> - 1))"

text \<open>The integer nearest to \<open>q\<close>, the even one on a tie.\<close>

definition roundHalfEven :: "rat \<Rightarrow> int" where
  "roundHalfEven q =
     (let f = \<lfloor>q\<rfloor>; d = q - of_int f
      in if d < 1 / 2 then f else if 1 / 2 < d then f + 1 else if even f then f else f + 1)"

text \<open>
  The double that an exact result is rounded to, in the default rounding mode (to the
  nearest, a tie to the even significand): 53 significant bits, the last of them of weight
  \<open>2^(-1074)\<close> at least (the subnormal numbers), and an infinity from \<open>2^1024\<close> on.
\<close>

definition roundD :: "rat \<Rightarrow> double" where
  "roundD x =
     (if x = 0 then Finite 0
      else
        let e = max (ilog2 \<bar>x\<bar> - 52) (- 1074);
            r = of_int (roundHalfEven (x / 2 powi e)) * 2 powi e
        in if 2 ^ 1024 \<le> \<bar>r\<bar> then (if 0 < x then PlusInfinity else MinusInfinity)
           else Finite r)"

text \<open>The product \<^verbatim>\<open>x * y\<close>.\<close>

fun mulD :: "double \<Rightarrow> double \<Rightarrow> double" where
  "mulD (Finite a) (Finite b) = roundD (a * b)"
| "mulD NaN y = NaN"
| "mulD x NaN = NaN"
| "mulD (Finite a) PlusInfinity =
     (if a = 0 then NaN else if 0 < a then PlusInfinity else MinusInfinity)"
| "mulD (Finite a) MinusInfinity =
     (if a = 0 then NaN else if 0 < a then MinusInfinity else PlusInfinity)"
| "mulD PlusInfinity (Finite b) =
     (if b = 0 then NaN else if 0 < b then PlusInfinity else MinusInfinity)"
| "mulD MinusInfinity (Finite b) =
     (if b = 0 then NaN else if 0 < b then MinusInfinity else PlusInfinity)"
| "mulD PlusInfinity PlusInfinity = PlusInfinity"
| "mulD PlusInfinity MinusInfinity = MinusInfinity"
| "mulD MinusInfinity PlusInfinity = MinusInfinity"
| "mulD MinusInfinity MinusInfinity = PlusInfinity"

text \<open>
  The quotient \<^verbatim>\<open>x / c\<close> by a positive constant (\<^verbatim>\<open>1000\<close> and \<^verbatim>\<open>3600\<close> in the
  source).
\<close>

fun divideBy :: "double \<Rightarrow> rat \<Rightarrow> double" where
  "divideBy (Finite a) c = roundD (a / c)"
| "divideBy x c = x"

text \<open>
  \<^verbatim>\<open>Math.round\<close>, to the nearest integer with a tie towards plus infinity, and
  \<^verbatim>\<open>Math.floor\<close>. Both are exact: the integer they return is a double.
\<close>

definition Math_round :: "double \<Rightarrow> double" where
  "Math_round d = (case d of Finite x \<Rightarrow> Finite (of_int \<lfloor>x + 1 / 2\<rfloor>) | _ \<Rightarrow> d)"

definition Math_floor :: "double \<Rightarrow> double" where
  "Math_floor d = (case d of Finite x \<Rightarrow> Finite (of_int \<lfloor>x\<rfloor>) | _ \<Rightarrow> d)"

subsection \<open>Decimal text of numbers\<close>

definition digitChar :: "nat \<Rightarrow> char" where
  "digitChar d = ''0123456789'' ! d"

function digits :: "nat \<Rightarrow> string" where
  "digits n = (if n < 10 then [digitChar n] else digits (n div 10) @ [digitChar (n mod 10)])"
  by pat_completeness auto
termination
  by (relation "measure id") auto

declare digits.simps [simp del]

text \<open>
  \<^verbatim>\<open>transactionId.toString()\<close>, for an integer transaction id of less than 22 digits
  (from \<open>10^21\<close> on the runtime writes an exponent).
\<close>

definition toString :: "int \<Rightarrow> string" where
  "toString i = (if i < 0 then CHR ''-'' # digits (nat (- i)) else digits (nat i))"

text \<open>
  The decimal text of a number with \<open>f\<close> digits after the point, as
  \<^verbatim>\<open>Number.prototype.toFixed\<close> writes a finite number below \<open>10^21\<close>: the sign, then
  the integer \<open>n\<close> for which \<open>n / 10^f\<close> is nearest to the number (the larger one
  on a tie), padded with zeros to \<open>f + 1\<close> digits, the point before the last \<open>f\<close>.
\<close>

definition decimalText :: "rat \<Rightarrow> nat \<Rightarrow> string" where
  "decimalText x f =
     (let s = (if x < 0 then ''-'' else []);
          n = nat \<lfloor>\<bar>x\<bar> * 10 ^ f + 1 / 2\<rfloor>;
          m = digits n;
          m1 = (if length m \<le> f then replicate (f + 1 - length m) CHR ''0'' @ m else m)
      in if f = 0 then s @ m
         else s @ take (length m1 - f) m1 @ ''.'' @ drop (length m1 - f) m1)"

subsection \<open>Collaborators taken as parameters\<close>

text \<open>
  The schema validators of \<^verbatim>\<open>jsonSchemaValidator\<close> are pass/fail oracles keyed by
  protocol version and action: \<open>False\<close> stands for a thrown error. \<open>toNumber\<close>,
  \<open>parseFloat\<close> and \<open>numberToString\<close> are the coercions of the JavaScript runtime
  (for \<open>toNumber\<close>, \<open>None\<close> is \<^verbatim>\<open>NaN\<close>). \<open>CHARGING_POWER_KW\<close> is the module
  constant, which is \<^verbatim>\<open>parseFloat\<close> of the environment variable of that name
  (of \<^verbatim>\<open>"22"\<close> when unset): any double, \<^verbatim>\<open>NaN\<close> included.
\<close>

record externals =
  validateOcppRequest :: "string \<Rightarrow> json \<Rightarrow> json \<Rightarrow> bool"
  validateOcppResponse :: "string \<Rightarrow> json \<Rightarrow> json \<Rightarrow> bool"
  toNumber :: "json \<Rightarrow> rat option"
  parseFloat :: "json \<Rightarrow> double"
  numberToString :: "rat \<Rightarrow> string"
  CHARGING_POWER_KW :: double

definition METER_VALUES_INTERVAL_SEC :: int where
  "METER_VALUES_INTERVAL_SEC = 60"

text \<open>The comparison \<^verbatim>\<open>x > 0\<close> on an arbitrary value.\<close>

definition greaterThanZero :: "externals \<Rightarrow> json \<Rightarrow> bool" where
  "greaterThanZero ext v =
     (case v of
        JNum n \<Rightarrow> 0 < n
      | JUndefined \<Rightarrow> False
      | JNull \<Rightarrow> False
      | JBool b \<Rightarrow> b
      | _ \<Rightarrow> (case toNumber ext v of None \<Rightarrow> False | Some n \<Rightarrow> 0 < n))"

text \<open>
  \<^verbatim>\<open>x.toFixed(f)\<close>: the decimal text of the exact value of the double \<open>x\<close>; from
  \<open>10^21\<close> on, and for a value that is not finite, the runtime's plain number text.
\<close>

definition toFixed :: "externals \<Rightarrow> double \<Rightarrow> nat \<Rightarrow> string" where
  "toFixed ext d f =
     (case d of
        NaN \<Rightarrow> ''NaN''
      | PlusInfinity \<Rightarrow> ''Infinity''
      | MinusInfinity \<Rightarrow> ''-Infinity''
      | Finite x \<Rightarrow>
          if 10 ^ 21 \<le> \<bar>x\<bar> then (if x < 0 then ''-'' else []) @ numberToString ext \<bar>x\<bar>
          else decimalText x f)"

subsection \<open>Messages and the state of the process\<close>

text \<open>
  \<^verbatim>\<open>OcppCall\<close> and \<^verbatim>\<open>OcppCallResult\<close> have the same three fields; at run time every
  field holds whatever the frame or the caller supplied.
\<close>

record OcppCall =
  messageId :: json
  action :: json
  payload :: json

type_synonym OcppCallResult = OcppCall

datatype OcppCallError =
  OcppCallError (errorMessageId: json) (errorCode: json) (errorDescription: json)
    (errorDetails: json)

record VCPOptions =
  ocppVersion :: string
  endpoint :: string
  chargePointId :: string
  basicAuthPassword :: "string option"
  adminWsPort :: "nat option"
  adminHttpPort :: "nat option"

datatype direction = Incoming | Outgoing

text \<open>
  \<^verbatim>\<open>VCPState\<close>. \<open>lastAction\<close> keeps the two parts of the text
  \<^verbatim>\<open>`${action} (${direction})`\<close>; \<open>None\<close> is the initial \<^verbatim>\<open>'-'\<close>.
\<close>

record VCPState =
  currentStatus :: json
  activeTransactionId :: json
  sessionStartTime :: "int option"
  meterValue :: double
  lastAction :: "(json \<times> direction) option"

text \<open>\<^verbatim>\<open>TransactionState\<close>; its field \<^verbatim>\<open>meterValue\<close> is \<open>txMeterValue\<close> here.\<close>

record TransactionState =
  transactionId :: int
  txMeterValue :: double
  startedAt :: int
  connectorId :: int
  meterValuesTimer :: "nat option"

datatype WebSocket = WebSocket (url: string) (protocolOf: string) (auth: "string option")

datatype WebSocketServer = WebSocketServer (port: nat)

datatype adminMessage =
    ConnectionInfo string string string
  | OcppMessageSent json json json int
  | OcppMessageReceived json json json int
  | OcppCallResultReceived json json json int
  | StateUpdate VCPState

text \<open>
  The admin events are \<^verbatim>\<open>connection_info\<close>, \<^verbatim>\<open>ocpp_message_sent\<close>,
  \<^verbatim>\<open>ocpp_message_received\<close>, \<^verbatim>\<open>ocpp_call_result\<close> (message id, action, payload,
  timestamp) and \<^verbatim>\<open>state_update\<close>.
\<close>

datatype event =
    LogConnecting
  | LogSending json
  | LogResponding json
  | LogReceive "json option"
  | LogClosed int string
  | OutboxEnqueue OcppCall
  | WsSend json
  | WsClose
  | AdminWsClose
  | AdminBroadcast adminMessage
  | HandleCall OcppCall
  | HandleCallResult OcppCall OcppCallResult
  | HandleCallError OcppCallError

text \<open>
  An interval timer of the event loop holds the variables its callback closes over: the
  transaction id and the connector id of \<^verbatim>\<open>startTransaction\<close>.
\<close>

record timer =
  intervalMs :: int
  timerTransactionId :: int
  timerConnectorId :: int

text \<open>
  The state: the fields of the one \<^verbatim>\<open>VCP\<close> instance (\<open>vcpOptions\<close>, \<open>ws\<close>,
  \<open>adminWs\<close>, \<open>isFinishing\<close>, \<open>state\<close>), the module-level singletons
  \<^verbatim>\<open>ocppOutbox\<close> and \<^verbatim>\<open>transactionManager.transactions\<close>, the active interval timers
  of the event loop with the next free handle, the clock and the trace.
\<close>

record world =
  vcpOptions :: VCPOptions
  ws :: "WebSocket option"
  adminWs :: "WebSocketServer option"
  isFinishing :: bool
  state :: VCPState
  ocppOutbox :: "json \<rightharpoonup> OcppCall"
  transactions :: "string \<rightharpoonup> TransactionState"
  timers :: "nat \<rightharpoonup> timer"
  nextTimer :: nat
  now :: int
  trace :: "event list"

text \<open>
  The handler object that \<^verbatim>\<open>resolveMessageHandler\<close> returns for the configured version.
  A handler receives the connection, so it may do anything to the state.
\<close>

record OcppMessageHandler =
  handleCall :: "world \<Rightarrow> OcppCall \<Rightarrow> outcome \<times> world"
  handleCallResult :: "world \<Rightarrow> OcppCall \<Rightarrow> OcppCallResult \<Rightarrow> outcome \<times> world"
  handleCallError :: "world \<Rightarrow> OcppCallError \<Rightarrow> outcome \<times> world"

definition emit :: "world \<Rightarrow> event \<Rightarrow> world" where
  "emit w e = w\<lparr>trace := trace w @ [e]\<rparr>"

text \<open>Sequencing: the next step runs only after a normal return.\<close>

definition andThen :: "outcome \<times> world \<Rightarrow> (world \<Rightarrow> outcome \<times> world) \<Rightarrow> outcome \<times> world" where
  "andThen r f = (case r of (Returned, w) \<Rightarrow> f w | (Threw e, w) \<Rightarrow> (Threw e, w)
                   | (Exited c, w) \<Rightarrow> (Exited c, w))"

definition bindE :: "error + 'a \<Rightarrow> ('a \<Rightarrow> error + 'b) \<Rightarrow> error + 'b" where
  "bindE r f = (case r of Inl e \<Rightarrow> Inl e | Inr x \<Rightarrow> f x)"

subsection \<open>The pending-call ledger\<close>

text \<open>
  Modelled from the spec: the module \<^verbatim>\<open>ocppOutbox\<close> is not among the sources. The
  ledger is a mapping from call id to call. \<open>enqueue\<close> inserts, and a duplicate id is a
  \<open>DuplicateCallId\<close> error; \<open>get\<close> is the read-only inspection, which does not
  consume the entry.
\<close>

definition enqueue :: "(json \<rightharpoonup> OcppCall) \<Rightarrow> OcppCall \<Rightarrow> error + (json \<rightharpoonup> OcppCall)" where
  "enqueue l c =
     (if l (messageId c) \<noteq> None then Inl DuplicateCallId else Inr (l(messageId c \<mapsto> c)))"

definition get :: "(json \<rightharpoonup> OcppCall) \<Rightarrow> json \<Rightarrow> OcppCall option" where
  "get l k = l k"

subsection \<open>The admin mirror and the dashboard state\<close>

text \<open>\<^verbatim>\<open>broadcastToAdminClients\<close>: nothing without an admin socket.\<close>

definition broadcastToAdminClients :: "world \<Rightarrow> adminMessage \<Rightarrow> world" where
  "broadcastToAdminClients w m = (if adminWs w = None then w else emit w (AdminBroadcast m))"

definition broadcastStateUpdate :: "world \<Rightarrow> world" where
  "broadcastStateUpdate w = broadcastToAdminClients w (StateUpdate (state w))"

text \<open>
  The three tracking blocks of \<^verbatim>\<open>updateStateFromMessage\<close>, each on the dashboard
  state alone. A property read on an absent payload raises.
\<close>

definition trackStatusNotification :: "json \<Rightarrow> json \<Rightarrow> VCPState \<Rightarrow> error + VCPState" where
  "trackStatusNotification act pl st =
     (if act \<noteq> JStr ''StatusNotification'' then Inr st
      else bindE (getProp pl ''status'')
             (\<lambda>s. Inr (if truthy s then st\<lparr>currentStatus := s\<rparr> else st)))"

definition trackStopTransaction :: "json \<Rightarrow> direction \<Rightarrow> VCPState \<Rightarrow> VCPState" where
  "trackStopTransaction act dir st =
     (if act = JStr ''StopTransaction'' \<and> dir = Outgoing
      then st\<lparr>activeTransactionId := JNull, sessionStartTime := None,
              meterValue := Finite 0\<rparr>
      else st)"

text \<open>\<^verbatim>\<open>s.unit || s.unitOfMeasure?.unit || 'Wh'\<close>\<close>

definition sampledUnit :: "json \<Rightarrow> error + json" where
  "sampledUnit s =
     bindE (getProp s ''unit'') (\<lambda>u.
       if truthy u then Inr u
       else bindE (getProp s ''unitOfMeasure'') (\<lambda>m.
              bindE (if m = JUndefined \<or> m = JNull then Inr JUndefined else getProp m ''unit'')
                (\<lambda>u2. Inr (if truthy u2 then u2 else JStr ''Wh''))))"

text \<open>
  The reading is \<^verbatim>\<open>parseFloat(value) || 0\<close>, which is zero for \<^verbatim>\<open>NaN\<close>; in
  kilowatt-hours it is multiplied by \<^verbatim>\<open>1000\<close>, and then rounded to an integer.
\<close>

definition trackMeterValues :: "externals \<Rightarrow> json \<Rightarrow> json \<Rightarrow> VCPState \<Rightarrow> error + VCPState" where
  "trackMeterValues ext act pl st =
     (if act \<noteq> JStr ''MeterValues'' then Inr st
      else
        bindE (getProp pl ''meterValue'') (\<lambda>mv.
        if \<not> truthy mv then Inr st
        else
          bindE (getProp mv ''length'') (\<lambda>n.
          if \<not> greaterThanZero ext n then Inr st
          else
            bindE (getFirst mv) (\<lambda>m0.
            bindE (getProp m0 ''sampledValue'') (\<lambda>sv.
            if \<not> truthy sv then Inr st
            else
              bindE (getProp sv ''length'') (\<lambda>k.
              if \<not> greaterThanZero ext k then Inr st
              else
                bindE (getFirst sv) (\<lambda>s0.
                bindE (getProp s0 ''value'') (\<lambda>v.
                bindE (sampledUnit s0) (\<lambda>unit.
                  let x = (case parseFloat ext v of NaN \<Rightarrow> Finite 0 | d \<Rightarrow> d)
                  in Inr (st\<lparr>meterValue :=
                            (if unit = JStr ''kWh'' then Math_round (mulD x (Finite 1000))
                             else Math_round x)\<rparr>))))))))))"

definition updateStateFromMessage ::
    "externals \<Rightarrow> world \<Rightarrow> json \<Rightarrow> json \<Rightarrow> direction \<Rightarrow> outcome \<times> world" where
  "updateStateFromMessage ext w act pl dir =
     (let s0 = (state w)\<lparr>lastAction := Some (act, dir)\<rparr>
      in case trackStatusNotification act pl s0 of
           Inl e \<Rightarrow> (Threw e, w\<lparr>state := s0\<rparr>)
         | Inr s1 \<Rightarrow>
             (let s2 = trackStopTransaction act dir s1
              in case trackMeterValues ext act pl s2 of
                   Inl e \<Rightarrow> (Threw e, w\<lparr>state := s2\<rparr>)
                 | Inr s3 \<Rightarrow> (Returned, broadcastStateUpdate (w\<lparr>state := s3\<rparr>))))"

definition updateStateFromCallResult :: "world \<Rightarrow> json \<Rightarrow> json \<Rightarrow> outcome \<times> world" where
  "updateStateFromCallResult w act pl =
     (if act \<noteq> JStr ''StartTransaction'' then (Returned, w)
      else case getProp pl ''transactionId'' of
             Inl e \<Rightarrow> (Threw e, w)
           | Inr t \<Rightarrow>
               if truthy t
               then (Returned,
                     broadcastStateUpdate
                       (w\<lparr>state := (state w)\<lparr>activeTransactionId := t,
                                              sessionStartTime := Some (now w)\<rparr>\<rparr>))
               else (Returned, w))"

subsection \<open>The connection: class VCP\<close>

text \<open>
  The process right after \<^verbatim>\<open>new VCP(vcpOptions)\<close> at instant \<open>t\<close>: no transport yet,
  an admin socket when a port is configured, empty ledger and session table.
\<close>

definition newVCP :: "VCPOptions \<Rightarrow> int \<Rightarrow> world" where
  "newVCP opts t =
     \<lparr>vcpOptions = opts,
      ws = None,
      adminWs = (case adminWsPort opts of
                   None \<Rightarrow> None
                 | Some p \<Rightarrow> if p = 0 then None else Some (WebSocketServer p)),
      isFinishing = False,
      state = \<lparr>currentStatus = JStr ''Unknown'', activeTransactionId = JNull,
               sessionStartTime = None, meterValue = Finite 0, lastAction = None\<rparr>,
      ocppOutbox = Map.empty,
      transactions = Map.empty,
      timers = Map.empty,
      nextTimer = 0,
      now = t,
      trace = []\<rparr>"

text \<open>
  \<^verbatim>\<open>connect\<close> creates the transport at once; the promise it returns resolves on the
  transport's \<^verbatim>\<open>open\<close> event. The subprotocol token is kept as the version it is
  computed from.
\<close>

definition connect :: "world \<Rightarrow> outcome \<times> world" where
  "connect w =
     (let opts = vcpOptions w
      in (Returned,
          (emit w LogConnecting)
            \<lparr>isFinishing := False,
             ws := Some (WebSocket (endpoint opts @ ''/'' @ chargePointId opts) (ocppVersion opts)
                      (case basicAuthPassword opts of
                         None \<Rightarrow> None
                       | Some pw \<Rightarrow>
                           if pw = [] then None
                           else Some (chargePointId opts @ '':'' @ pw)))\<rparr>))"

text \<open>The frame of a call: \<^verbatim>\<open>JSON.stringify([2, messageId, action, payload])\<close>.\<close>

definition callFrame :: "OcppCall \<Rightarrow> json" where
  "callFrame c = stringify (JArr [JNum 2, messageId c, action c, payload c])"

definition send :: "externals \<Rightarrow> world \<Rightarrow> OcppCall \<Rightarrow> outcome \<times> world" where
  "send ext w ocppCall =
     (if ws w = None then (Threw WebsocketNotInitialized, w)
      else case enqueue (ocppOutbox w) ocppCall of
             Inl e \<Rightarrow> (Threw e, w)
           | Inr l \<Rightarrow>
               (let w1 = emit (w\<lparr>ocppOutbox := l\<rparr>) (OutboxEnqueue ocppCall);
                    jsonMessage = callFrame ocppCall;
                    w2 = emit w1 (LogSending jsonMessage)
                in case parseStringify (payload ocppCall) of
                     Inl e \<Rightarrow> (Threw e, w2)
                   | Inr p \<Rightarrow>
                       if \<not> validateOcppRequest ext (ocppVersion (vcpOptions w2))
                              (action ocppCall) p
                       then (Threw SchemaViolation, w2)
                       else
                         andThen
                           (updateStateFromMessage ext (emit w2 (WsSend jsonMessage))
                              (action ocppCall) (payload ocppCall) Outgoing)
                           (\<lambda>w3. (Returned,
                                  broadcastToAdminClients w3
                                    (OcppMessageSent (messageId ocppCall) (action ocppCall)
                                       (payload ocppCall) (now w3))))))"

definition respond :: "externals \<Rightarrow> world \<Rightarrow> OcppCallResult \<Rightarrow> outcome \<times> world" where
  "respond ext w result =
     (if ws w = None then (Threw WebsocketNotInitialized, w)
      else
        let jsonMessage = stringify (JArr [JNum 3, messageId result, payload result]);
            w1 = emit w (LogResponding jsonMessage)
        in case parseStringify (payload result) of
             Inl e \<Rightarrow> (Threw e, w1)
           | Inr p \<Rightarrow>
               if \<not> validateOcppResponse ext (ocppVersion (vcpOptions w1)) (action result) p
               then (Threw SchemaViolation, w1)
               else (Returned, emit w1 (WsSend jsonMessage)))"

definition respondError :: "world \<Rightarrow> OcppCallError \<Rightarrow> outcome \<times> world" where
  "respondError w err =
     (if ws w = None then (Threw WebsocketNotInitialized, w)
      else
        let jsonMessage =
              stringify (JArr [JNum 4, errorMessageId err, errorCode err,
                               errorDescription err, errorDetails err])
        in (Returned, emit (emit w (LogResponding jsonMessage)) (WsSend jsonMessage)))"

text \<open>\<^verbatim>\<open>close\<close> ends with \<^verbatim>\<open>process.exit(1)\<close>.\<close>

definition close :: "world \<Rightarrow> outcome \<times> world" where
  "close w =
     (if ws w = None then (Threw CloseNotOpened, w)
      else
        let w1 = emit (w\<lparr>isFinishing := True\<rparr>) WsClose;
            w2 = (if adminWs w1 = None then w1 else emit w1 AdminWsClose)
        in (Exited 1, w2\<lparr>ws := None, adminWs := None\<rparr>))"

text \<open>
  \<^verbatim>\<open>_onMessage\<close>, the listener of the transport's \<^verbatim>\<open>message\<close> event. Nothing
  catches what it throws.
\<close>

definition onMessage ::
    "externals \<Rightarrow> OcppMessageHandler \<Rightarrow> world \<Rightarrow> json option \<Rightarrow> outcome \<times> world" where
  "onMessage ext h w message =
     (let w0 = emit w (LogReceive message)
      in case message of
           None \<Rightarrow> (Threw SyntaxError, w0)
         | Some data \<Rightarrow>
            (case headRest data of
               Inl e \<Rightarrow> (Threw e, w0)
             | Inr (type, rest) \<Rightarrow>
                 if type = JNum 2 then
                   (let mid = element rest 0; act = element rest 1; pl = element rest 2;
                        w1 = broadcastToAdminClients w0 (OcppMessageReceived mid act pl (now w0))
                    in if \<not> validateOcppRequest ext (ocppVersion (vcpOptions w1)) act pl
                       then (Threw SchemaViolation, w1)
                       else
                         andThen (updateStateFromMessage ext w1 act pl Incoming)
                           (\<lambda>w2. let c = \<lparr>messageId = mid, action = act, payload = pl\<rparr>
                                 in handleCall h (emit w2 (HandleCall c)) c))
                 else if type = JNum 3 then
                   (let mid = element rest 0; pl = element rest 1
                    in case get (ocppOutbox w0) mid of
                         None \<Rightarrow> (Threw (UnknownMessageId mid), w0)
                       | Some enqueuedCall \<Rightarrow>
                           andThen (updateStateFromCallResult w0 (action enqueuedCall) pl)
                             (\<lambda>w1.
                                let w2 = broadcastToAdminClients w1
                                           (OcppCallResultReceived mid (action enqueuedCall) pl
                                              (now w1))
                                in if \<not> validateOcppResponse ext (ocppVersion (vcpOptions w2))
                                          (action enqueuedCall) pl
                                   then (Threw SchemaViolation, w2)
                                   else
                                     let r = \<lparr>messageId = mid, action = action enqueuedCall,
                                              payload = pl\<rparr>
                                     in handleCallResult h
                                          (emit w2 (HandleCallResult enqueuedCall r))
                                          enqueuedCall r))
                 else if type = JNum 4 then
                   (let err = OcppCallError (element rest 0) (element rest 1) (element rest 2)
                                (element rest 3)
                    in handleCallError h (emit w0 (HandleCallError err)) err)
                 else (Threw (UnrecognizedMessageType type), w0)))"

text \<open>\<^verbatim>\<open>_onClose\<close>: silent after a local close, otherwise \<^verbatim>\<open>process.exit()\<close>.\<close>

definition onClose :: "world \<Rightarrow> int \<Rightarrow> string \<Rightarrow> outcome \<times> world" where
  "onClose w code reason =
     (if isFinishing w then (Returned, w) else (Exited 0, emit w (LogClosed code reason)))"

subsection \<open>The transaction simulator: class TransactionManager\<close>

text \<open>\<^verbatim>\<open>setInterval\<close> and \<^verbatim>\<open>clearInterval\<close> of the event loop.\<close>

definition setInterval :: "world \<Rightarrow> timer \<Rightarrow> nat \<times> world" where
  "setInterval w t =
     (nextTimer w, w\<lparr>timers := (timers w)(nextTimer w \<mapsto> t), nextTimer := Suc (nextTimer w)\<rparr>)"

definition clearInterval :: "world \<Rightarrow> nat \<Rightarrow> world" where
  "clearInterval w h = w\<lparr>timers := (timers w)(h := None)\<rparr>"

definition startTransaction :: "world \<Rightarrow> int \<Rightarrow> int \<Rightarrow> world" where
  "startTransaction w tid cid =
     (case setInterval w \<lparr>intervalMs = METER_VALUES_INTERVAL_SEC * 1000,
                          timerTransactionId = tid, timerConnectorId = cid\<rparr> of
        (h, w1) \<Rightarrow>
          w1\<lparr>transactions := (transactions w1)(toString tid \<mapsto>
                \<lparr>transactionId = tid, txMeterValue = Finite 0, startedAt = now w1,
                 connectorId = cid, meterValuesTimer = Some h\<rparr>)\<rparr>)"

definition stopTransaction :: "world \<Rightarrow> int \<Rightarrow> world" where
  "stopTransaction w tid =
     (let w1 = (case transactions w (toString tid) of
                  None \<Rightarrow> w
                | Some transaction \<Rightarrow>
                    (case meterValuesTimer transaction of
                       None \<Rightarrow> w
                     | Some h \<Rightarrow> clearInterval w h))
      in w1\<lparr>transactions := (transactions w1)(toString tid := None)\<rparr>)"

text \<open>
  Seconds since the session started; zero for an unknown id. The two instants are whole
  milliseconds, each of them a double; their difference is rounded, and so is the quotient.
\<close>

definition getMeterValue :: "world \<Rightarrow> int \<Rightarrow> double" where
  "getMeterValue w tid =
     (case transactions w (toString tid) of
        None \<Rightarrow> Finite 0
      | Some transaction \<Rightarrow> divideBy (roundD (of_int (now w - startedAt transaction))) 1000)"

definition getMeterValueWh :: "externals \<Rightarrow> world \<Rightarrow> int \<Rightarrow> double" where
  "getMeterValueWh ext w tid =
     Math_floor (mulD (mulD (divideBy (getMeterValue w tid) 3600) (CHARGING_POWER_KW ext))
                   (Finite 1000))"

text \<open>
  Modelled from the spec: \<^verbatim>\<open>messageFactory.call\<close> is not among the sources. A call is
  an id, an action and a payload; the fresh id it allocates is supplied by the caller here.
\<close>

definition call :: "string \<Rightarrow> string \<Rightarrow> json \<Rightarrow> OcppCall" where
  "call mid act pl = \<lparr>messageId = JStr mid, action = JStr act, payload = pl\<rparr>"

text \<open>
  The call that the interval callback of \<^verbatim>\<open>startTransaction\<close> builds, and the callback
  itself, which hands it to \<^verbatim>\<open>vcp.send\<close>.
\<close>

definition meterValuesCall :: "externals \<Rightarrow> world \<Rightarrow> string \<Rightarrow> int \<Rightarrow> int \<Rightarrow> OcppCall" where
  "meterValuesCall ext w mid tid cid =
     call mid ''MeterValues''
       (JObj [(''connectorId'', JNum (of_int cid)),
              (''transactionId'', JNum (of_int tid)),
              (''meterValue'',
               JArr [JObj [(''timestamp'', JNum (of_int (now w))),
                           (''sampledValue'',
                            JArr [JObj [(''value'',
                                         JStr (toFixed ext
                                                 (divideBy
                                                    (mulD (getMeterValue w tid)
                                                       (CHARGING_POWER_KW ext))
                                                    3600)
                                                 3)),
                                        (''measurand'', JStr ''Energy.Active.Import.Register''),
                                        (''unit'', JStr ''kWh'')]])]])])"

definition meterValuesTick :: "externals \<Rightarrow> world \<Rightarrow> string \<Rightarrow> timer \<Rightarrow> outcome \<times> world" where
  "meterValuesTick ext w mid t =
     send ext w (meterValuesCall ext w mid (timerTransactionId t) (timerConnectorId t))"

text \<open>The event loop runs the callback of an active timer; a cleared handle runs nothing.\<close>

definition fireTimer :: "externals \<Rightarrow> world \<Rightarrow> string \<Rightarrow> nat \<Rightarrow> outcome \<times> world" where
  "fireTimer ext w mid h =
     (case timers w h of None \<Rightarrow> (Returned, w) | Some t \<Rightarrow> meterValuesTick ext w mid t)"

text \<open>The environment lets time pass between two events.\<close>

definition advance :: "world \<Rightarrow> int \<Rightarrow> world" where
  "advance w ms = w\<lparr>now := now w + ms\<rparr>"

text \<open>The energy reading of a telemetry call: \<^verbatim>\<open>payload.meterValue[0].sampledValue[0].value\<close>.\<close>

definition reportedEnergy :: "OcppCall \<Rightarrow> error + json" where
  "reportedEnergy c =
     bindE (getProp (payload c) ''meterValue'') (\<lambda>mv.
     bindE (getFirst mv) (\<lambda>m0.
     bindE (getProp m0 ''sampledValue'') (\<lambda>sv.
     bindE (getFirst sv) (\<lambda>s0. getProp s0 ''value''))))"

subsection \<open>Reachable states of the simulator\<close>

text \<open>
  The states that the process reaches from its start by connecting, by letting time pass
  and by any sequence of \<^verbatim>\<open>startTransaction\<close> and \<^verbatim>\<open>stopTransaction\<close>; and the part
  of the pairing of sessions with timers that holds in all of them: every session is
  stored under the text of its id and owns an active timer for that id, timer handles are
  below the next free one, and no two sessions share a timer.
\<close>

inductive reachable :: "world \<Rightarrow> bool" where
  fresh: "reachable (newVCP opts t)"
| connected: "reachable w \<Longrightarrow> reachable (snd (connect w))"
| later: "reachable w \<Longrightarrow> reachable (advance w ms)"
| started: "reachable w \<Longrightarrow> reachable (startTransaction w tid cid)"
| stopped: "reachable w \<Longrightarrow> reachable (stopTransaction w tid)"

definition sessionsHaveTimers :: "world \<Rightarrow> bool" where
  "sessionsHaveTimers w =
     ((\<forall>k s. transactions w k = Some s \<longrightarrow>
         k = toString (transactionId s)
         \<and> (\<exists>h. meterValuesTimer s = Some h
               \<and> timers w h = Some \<lparr>intervalMs = METER_VALUES_INTERVAL_SEC * 1000,
                                     timerTransactionId = transactionId s,
                                     timerConnectorId = connectorId s\<rparr>))
      \<and> (\<forall>h tm. timers w h = Some tm \<longrightarrow> h < nextTimer w)
      \<and> (\<forall>k k' s s'. transactions w k = Some s \<longrightarrow> transactions w k' = Some s' \<longrightarrow>
             meterValuesTimer s = meterValuesTimer s' \<longrightarrow> k = k'))"

subsection \<open>Observations on the trace\<close>

text \<open>The frames handed to the transport so far, oldest first.\<close>

fun frameOf :: "event \<Rightarrow> json list" where
  "frameOf (WsSend f) = [f]"
| "frameOf e = []"

definition transmitted :: "world \<Rightarrow> json list" where
  "transmitted w = concat (map frameOf (trace w))"

text \<open>The handler invocations so far, oldest first.\<close>

fun isHandlerEvent :: "event \<Rightarrow> bool" where
  "isHandlerEvent (HandleCall c) = True"
| "isHandlerEvent (HandleCallResult c r) = True"
| "isHandlerEvent (HandleCallError e) = True"
| "isHandlerEvent e = False"

definition handlerCalls :: "world \<Rightarrow> event list" where
  "handlerCalls w = filter isHandlerEvent (trace w)"

subsection \<open>The number that a decimal text denotes\<close>

text \<open>
  How a reader of the frame takes the reading: an optional minus sign, the digits before
  the point as an integer, the digits after it as a decimal fraction.
\<close>

definition digitVal :: "char \<Rightarrow> nat" where
  "digitVal c = length (takeWhile (\<lambda>d. d \<noteq> c) ''0123456789'')"

definition natOfDigits :: "string \<Rightarrow> nat" where
  "natOfDigits s = foldl (\<lambda>a c. 10 * a + digitVal c) 0 s"

definition unsignedValue :: "string \<Rightarrow> rat" where
  "unsignedValue t =
     (let a = takeWhile (\<lambda>c. c \<noteq> CHR ''.'') t;
          b = drop (Suc (length a)) t
      in of_nat (natOfDigits a) + of_nat (natOfDigits b) / 10 ^ length b)"

definition decimalValue :: "string \<Rightarrow> rat" where
  "decimalValue s =
     (case s of
        [] \<Rightarrow> 0
      | c # t \<Rightarrow> if c = CHR ''-'' then - unsignedValue t else unsignedValue s)"

text \<open>A text without point and sign.\<close>

definition plain :: "string \<Rightarrow> bool" where
  "plain s = (\<forall>c \<in> set s. c \<noteq> CHR ''.'' \<and> c \<noteq> CHR ''-'')"

text \<open>
  The reading as the specification words it: elapsed seconds times the power rating in
  kilowatts, divided by 3600, as an exact quantity, written with three decimals.
\<close>

definition specifiedReading :: "rat \<Rightarrow> rat \<Rightarrow> string" where
  "specifiedReading elapsedSeconds powerKW = decimalText (elapsedSeconds * powerKW / 3600) 3"

subsection \<open>Concrete inputs\<close>

definition exampleOptions :: VCPOptions where
  "exampleOptions =
     \<lparr>ocppVersion = ''OCPP_1.6'', endpoint = ''ws://localhost:3000'', chargePointId = ''123456'',
      basicAuthPassword = None, adminWsPort = Some 9999, adminHttpPort = None\<rparr>"

text \<open>
  Validators that accept, respectively refuse, every payload; power rating 22 kW;
  \<^verbatim>\<open>parseFloat\<close> on the four readings that the runs below produce.
\<close>

definition acceptAll :: externals where
  "acceptAll =
     \<lparr>validateOcppRequest = (\<lambda>v a p. True), validateOcppResponse = (\<lambda>v a p. True),
      toNumber = (\<lambda>v. None),
      parseFloat = (\<lambda>v. if v = JStr ''22.000'' then Finite 22
                        else if v = JStr ''0.000'' then Finite 0
                        else if v = JStr ''0.357'' then roundD (357 / 1000)
                        else if v = JStr ''0.380'' then roundD (380 / 1000)
                        else NaN),
      numberToString = (\<lambda>x. []), CHARGING_POWER_KW = Finite 22\<rparr>"

definition rejectAll :: externals where
  "rejectAll =
     acceptAll\<lparr>validateOcppRequest := (\<lambda>v a p. False),
               validateOcppResponse := (\<lambda>v a p. False)\<rparr>"

text \<open>A handler object whose three operations return at once.\<close>

definition quietHandler :: OcppMessageHandler where
  "quietHandler =
     \<lparr>handleCall = (\<lambda>w c. (Returned, w)), handleCallResult = (\<lambda>w c r. (Returned, w)),
      handleCallError = (\<lambda>w e. (Returned, w))\<rparr>"

text \<open>A handler object that answers every inbound call with an empty result.\<close>

definition answeringHandler :: OcppMessageHandler where
  "answeringHandler =
     quietHandler\<lparr>handleCall :=
       (\<lambda>w c. respond acceptAll w
                \<lparr>messageId = messageId c, action = action c, payload = JObj []\<rparr>)\<rparr>"

text \<open>A connection that has been constructed and connected.\<close>

definition openWorld :: world where
  "openWorld = snd (connect (newVCP exampleOptions 0))"

definition heartbeat :: OcppCall where
  "heartbeat = call ''id-1'' ''Heartbeat'' (JObj [])"

text \<open>Frames of the peer: a call, and results for the ids \<^verbatim>\<open>id-1\<close> and \<^verbatim>\<open>no-such-id\<close>.\<close>

definition resetFrame :: "json option" where
  "resetFrame = Some (JArr [JNum 2, JStr ''srv-1'', JStr ''Reset'', JObj [(''type'', JStr ''Hard'')]])"

definition heartbeatResult :: "json option" where
  "heartbeatResult = Some (JArr [JNum 3, JStr ''id-1'', JObj [(''currentTime'', JStr ''t'')]])"

definition strayResult :: "json option" where
  "strayResult =
     Some (JArr [JNum 3, JStr ''no-such-id'', JObj [(''transactionId'', JNum 1)]])"

text \<open>
  A session for transaction 7 on connector 1, so many milliseconds after its start, and
  one hour after its start; and the state after two starts of transaction 7 followed by one
  stop.
\<close>

definition sessionAfter :: "int \<Rightarrow> world" where
  "sessionAfter ms = advance (startTransaction openWorld 7 1) ms"

definition hourLater :: world where
  "hourLater = sessionAfter 3600000"

definition leakedWorld :: world where
  "leakedWorld = stopTransaction (startTransaction (startTransaction openWorld 7 1) 7 1) 7"

definition startTransactionCall :: OcppCall where
  "startTransactionCall =
     call ''id-2'' ''StartTransaction''
       (JObj [(''connectorId'', JNum 1), (''idTag'', JStr ''AABBCCDD''), (''meterStart'', JNum 0),
              (''timestamp'', JNum 0)])"

section \<open>Properties\<close>

subsection \<open>Facts about the concrete inputs\<close>

lemma ws_newVCP: "ws (newVCP opts t) = None"
  by (simp add: newVCP_def)

lemma ws_openWorld: "ws openWorld \<noteq> None"
  by (simp add: openWorld_def connect_def Let_def emit_def)

lemma ws_after_close: "ws (snd (close w)) = None"
  by (simp add: close_def Let_def)

lemma digits_small: "n < 10 \<Longrightarrow> digits n = [digitChar n]"
  by (subst digits.simps) simp

lemma digits_large: "\<not> n < 10 \<Longrightarrow> digits n = digits (n div 10) @ [digitChar (n mod 10)]"
  by (subst digits.simps) simp

lemmas digits_eval = digits_small digits_large digitChar_def

lemma digits_nonempty: "digits n \<noteq> []"
  by (subst digits.simps) simp

lemma toString_7: "toString 7 = ''7''"
  by (simp add: toString_def digits_eval)

lemma transactions_openWorld: "transactions openWorld k = None"
  by (simp add: openWorld_def connect_def Let_def emit_def newVCP_def)

lemma ocppOutbox_openWorld: "ocppOutbox openWorld k = None"
  by (simp add: openWorld_def connect_def Let_def emit_def newVCP_def)

subsection \<open>What the helpers leave alone\<close>

lemma transmitted_emit: "transmitted (emit w e) = transmitted w @ frameOf e"
  by (simp add: transmitted_def emit_def)

lemma handlerCalls_emit:
  "handlerCalls (emit w e) = handlerCalls w @ (if isHandlerEvent e then [e] else [])"
  by (simp add: handlerCalls_def emit_def)

lemma broadcast_eq:
  "broadcastToAdminClients w m
     = w\<lparr>trace := trace w @ (if adminWs w = None then [] else [AdminBroadcast m])\<rparr>"
  by (simp add: broadcastToAdminClients_def emit_def)

lemma updateStateFromMessage_frame:
  "ocppOutbox (snd (updateStateFromMessage ext w a p d)) = ocppOutbox w"
  "ws (snd (updateStateFromMessage ext w a p d)) = ws w"
  "vcpOptions (snd (updateStateFromMessage ext w a p d)) = vcpOptions w"
  "now (snd (updateStateFromMessage ext w a p d)) = now w"
  "transmitted (snd (updateStateFromMessage ext w a p d)) = transmitted w"
  "handlerCalls (snd (updateStateFromMessage ext w a p d)) = handlerCalls w"
  by (simp_all add: updateStateFromMessage_def Let_def broadcastStateUpdate_def broadcast_eq
        transmitted_def handlerCalls_def split: sum.splits)

lemma updateStateFromMessage_trace:
  "\<exists>es. trace (snd (updateStateFromMessage ext w a p d)) = trace w @ es"
  by (simp add: updateStateFromMessage_def Let_def broadcastStateUpdate_def broadcast_eq
        split: sum.splits)

lemma updateStateFromCallResult_frame:
  "ocppOutbox (snd (updateStateFromCallResult w a p)) = ocppOutbox w"
  "ws (snd (updateStateFromCallResult w a p)) = ws w"
  "vcpOptions (snd (updateStateFromCallResult w a p)) = vcpOptions w"
  "now (snd (updateStateFromCallResult w a p)) = now w"
  "transmitted (snd (updateStateFromCallResult w a p)) = transmitted w"
  "handlerCalls (snd (updateStateFromCallResult w a p)) = handlerCalls w"
  by (simp_all add: updateStateFromCallResult_def Let_def broadcastStateUpdate_def broadcast_eq
        transmitted_def handlerCalls_def split: sum.splits)

lemma updateStateFromCallResult_trace:
  "\<exists>es. trace (snd (updateStateFromCallResult w a p)) = trace w @ es"
  by (simp add: updateStateFromCallResult_def Let_def broadcastStateUpdate_def broadcast_eq
        split: sum.splits)

lemma broadcast_frame:
  "ocppOutbox (broadcastToAdminClients w m) = ocppOutbox w"
  "ws (broadcastToAdminClients w m) = ws w"
  "vcpOptions (broadcastToAdminClients w m) = vcpOptions w"
  "now (broadcastToAdminClients w m) = now w"
  "transmitted (broadcastToAdminClients w m) = transmitted w"
  "handlerCalls (broadcastToAdminClients w m) = handlerCalls w"
  by (simp_all add: broadcast_eq transmitted_def handlerCalls_def)

lemma broadcast_trace:
  "trace (broadcastToAdminClients w m)
     = trace w @ (if adminWs w = None then [] else [AdminBroadcast m])"
  by (simp add: broadcast_eq)

lemma andThen_snd: "snd (andThen r f) = (if fst r = Returned then snd (f (snd r)) else snd r)"
  by (cases r; cases "fst r") (simp_all add: andThen_def)

lemma emit_frame:
  "ocppOutbox (emit w e) = ocppOutbox w"
  "ws (emit w e) = ws w"
  "vcpOptions (emit w e) = vcpOptions w"
  "now (emit w e) = now w"
  "adminWs (emit w e) = adminWs w"
  "isFinishing (emit w e) = isFinishing w"
  "trace (emit w e) = trace w @ [e]"
  by (simp_all add: emit_def)

lemma andThen_Returned: "fst r = Returned \<Longrightarrow> andThen r f = f (snd r)"
  by (cases r) (simp add: andThen_def)

lemma updateStateFromCallResult_object:
  "fst (updateStateFromCallResult w a (JObj kvs)) = Returned"
  by (simp add: updateStateFromCallResult_def)

text \<open>The definitions a concrete run unfolds.\<close>

lemmas eval_defs =
  send_def enqueue_def get_def parseStringify_def emit_def Let_def callFrame_def
  updateStateFromMessage_def updateStateFromCallResult_def trackStatusNotification_def
  trackStopTransaction_def trackMeterValues_def sampledUnit_def greaterThanZero_def
  broadcastStateUpdate_def broadcastToAdminClients_def andThen_def bindE_def
  call_def element_def onMessage_def respond_def respondError_def

lemmas input_defs =
  heartbeat_def startTransactionCall_def acceptAll_def rejectAll_def quietHandler_def
  answeringHandler_def resetFrame_def heartbeatResult_def strayResult_def
  openWorld_def connect_def newVCP_def exampleOptions_def

lemma trace_openWorld: "trace openWorld = [LogConnecting]"
  by (simp add: input_defs emit_def)

lemma transmitted_openWorld: "transmitted openWorld = []"
  by (simp add: transmitted_def trace_openWorld)

lemma handlerCalls_openWorld: "handlerCalls openWorld = []"
  by (simp add: handlerCalls_def trace_openWorld)

lemma sent_heartbeat_entry:
  "ocppOutbox (snd (send acceptAll openWorld heartbeat)) (JStr ''id-1'') = Some heartbeat"
  by (simp add: eval_defs input_defs)

lemma sent_startTransaction_ledger:
  "ocppOutbox (snd (send acceptAll openWorld startTransactionCall)) (JStr ''no-such-id'') = None"
  "ocppOutbox (snd (send acceptAll openWorld startTransactionCall)) (JStr ''id-2'')
     = Some startTransactionCall"
  by (simp_all add: eval_defs input_defs)

subsection \<open>Rounding to a double\<close>

lemma ilog2_bounds:
  assumes "0 < y"
  shows "2 powi ilog2 y \<le> y \<and> y < 2 powi (ilog2 y + 1)"
proof (cases "1 \<le> y")
  case True
  let ?n = "\<lfloor>y\<rfloor>"
  let ?b = "bitlen ?n"
  have n: "0 < ?n" using True by simp
  from bitlen_bounds [OF n] have lo: "2 ^ nat (?b - 1) \<le> ?n" and hi: "?n < 2 ^ nat ?b"
    by simp_all
  have b1: "1 \<le> ?b" using n bitlen_eq_zero_iff [of ?n] bitlen_nonneg [of ?n] by linarith
  have "(2::rat) ^ nat (?b - 1) = of_int (2 ^ nat (?b - 1))" by simp
  also have "\<dots> \<le> of_int ?n" using lo by (simp only: of_int_le_iff)
  also have "\<dots> \<le> y" by simp
  finally have l: "(2::rat) powi (?b - 1) \<le> y"
    using b1 by (simp add: power_int_nonneg_exp)
  have "?n + 1 \<le> 2 ^ nat ?b" using hi by simp
  then have "(of_int (?n + 1) :: rat) \<le> of_int (2 ^ nat ?b)" by (simp only: of_int_le_iff)
  then have "of_int ?n + 1 \<le> (2::rat) ^ nat ?b" by simp
  moreover have "y < of_int ?n + 1" by linarith
  ultimately have "y < (2::rat) ^ nat ?b" by linarith
  then have u: "y < (2::rat) powi ?b"
    using b1 by (simp add: power_int_nonneg_exp)
  show ?thesis using True l u by (simp add: ilog2_def)
next
  case False
  let ?z = "1 / y"
  let ?n = "\<lceil>?z\<rceil> - 1"
  let ?b = "bitlen ?n"
  have z: "1 < ?z" using False assms by simp
  have n: "0 < ?n" using z by linarith
  from bitlen_bounds [OF n] have lo: "2 ^ nat (?b - 1) \<le> ?n" and hi: "?n < 2 ^ nat ?b"
    by simp_all
  have b1: "1 \<le> ?b" using n bitlen_eq_zero_iff [of ?n] bitlen_nonneg [of ?n] by linarith
  have nz: "of_int ?n < ?z" by linarith
  have zc: "?z \<le> of_int ?n + 1" by linarith
  have "(of_int (?n + 1) :: rat) \<le> of_int (2 ^ nat ?b)" using hi by (simp only: of_int_le_iff)
  then have "of_int ?n + 1 \<le> (2::rat) ^ nat ?b" by simp
  with zc have zu: "?z \<le> (2::rat) ^ nat ?b" by linarith
  have "(2::rat) ^ nat (?b - 1) = of_int (2 ^ nat (?b - 1))" by simp
  also have "\<dots> \<le> of_int ?n" using lo by (simp only: of_int_le_iff)
  finally have zl: "(2::rat) ^ nat (?b - 1) < ?z" using nz by linarith
  have p: "(0::rat) < 2 ^ nat ?b" "(0::rat) < 2 ^ nat (?b - 1)" by simp_all
  from zu have l: "1 / 2 ^ nat ?b \<le> y"
    using assms p by (simp add: field_simps)
  from zl have u: "y < 1 / 2 ^ nat (?b - 1)"
    using assms p by (simp add: field_simps)
  have e1: "(2::rat) powi (- ?b) = 1 / 2 ^ nat ?b"
    using b1 by (simp add: power_int_minus_divide power_int_nonneg_exp)
  have e2: "(2::rat) powi (1 - ?b) = 1 / 2 ^ nat (?b - 1)"
  proof -
    have "1 - ?b = - (?b - 1)" by simp
    then show ?thesis
      using b1 by (simp only: power_int_minus_divide) (simp add: power_int_nonneg_exp)
  qed
  show ?thesis using False l u by (simp add: ilog2_def e1 e2)
qed

lemma pow2_less_cancel: "(2::rat) powi a < 2 powi b \<Longrightarrow> a < b"
  using power_int_increasing [of b a "2::rat"] by (cases "a < b") auto

lemma ilog2_unique:
  assumes "2 powi k \<le> y" and "y < 2 powi (k + 1)"
  shows "ilog2 y = k"
proof -
  have y: "0 < y"
  proof -
    have "(0::rat) < 2 powi k" by (simp add: zero_less_power_int)
    with assms show ?thesis by linarith
  qed
  from ilog2_bounds [OF y] have a: "2 powi ilog2 y \<le> y" and b: "y < 2 powi (ilog2 y + 1)"
    by simp_all
  have "(2::rat) powi ilog2 y < 2 powi (k + 1)" using a assms by linarith
  then have 1: "ilog2 y < k + 1" by (rule pow2_less_cancel)
  have "(2::rat) powi k < 2 powi (ilog2 y + 1)" using b assms by linarith
  then have 2: "k < ilog2 y + 1" by (rule pow2_less_cancel)
  from 1 2 show ?thesis by simp
qed

lemma roundHalfEven_error: "\<bar>of_int (roundHalfEven q) - q\<bar> \<le> 1 / 2"
  unfolding roundHalfEven_def Let_def
  by (auto simp: abs_if) linarith+

lemma roundHalfEven_unique:
  assumes "\<bar>q - of_int m\<bar> < 1 / 2"
  shows "roundHalfEven q = m"
proof -
  have "\<bar>of_int (roundHalfEven q) - (of_int m :: rat)\<bar> < 1"
    using roundHalfEven_error [of q] assms by linarith
  then have "\<bar>(of_int (roundHalfEven q - m) :: rat)\<bar> < 1" by simp
  then have "\<bar>roundHalfEven q - m\<bar> < 1"
    by (metis of_int_1 of_int_abs of_int_less_iff)
  then show ?thesis by simp
qed

lemma roundD_eqI:
  assumes "x \<noteq> 0" and "2 powi k \<le> \<bar>x\<bar>" and "\<bar>x\<bar> < 2 powi (k + 1)"
    and "\<bar>x / 2 powi (max (k - 52) (- 1074)) - of_int m\<bar> < 1 / 2"
    and "\<bar>(of_int m :: rat) * 2 powi (max (k - 52) (- 1074))\<bar> < 2 ^ 1024"
  shows "roundD x = Finite (of_int m * 2 powi (max (k - 52) (- 1074)))"
proof -
  have k: "ilog2 \<bar>x\<bar> = k" using assms(2,3) by (rule ilog2_unique)
  have m: "roundHalfEven (x / 2 powi (max (k - 52) (- 1074))) = m"
    using assms(4) by (rule roundHalfEven_unique)
  show ?thesis
    using assms(1,5) by (simp add: roundD_def Let_def k m)
qed

lemma roundD_0: "roundD 0 = Finite 0"
  by (simp add: roundD_def)

lemma roundD_normal:
  assumes lo: "2 powi (- 1022) \<le> \<bar>x\<bar>" and hi: "\<bar>x\<bar> \<le> 2 powi 1023"
  shows "\<exists>r. roundD x = Finite r \<and> \<bar>r - x\<bar> \<le> \<bar>x\<bar> / 2 ^ 53"
proof -
  let ?k = "ilog2 \<bar>x\<bar>"
  have pos: "0 < \<bar>x\<bar>"
  proof -
    have "(0::rat) < 2 powi (- 1022)" by (simp add: zero_less_power_int)
    with lo show ?thesis by linarith
  qed
  then have x0: "x \<noteq> 0" by simp
  from ilog2_bounds [OF pos] have kl: "2 powi ?k \<le> \<bar>x\<bar>" and ku: "\<bar>x\<bar> < 2 powi (?k + 1)"
    by simp_all
  have "(2::rat) powi (- 1022) < 2 powi (?k + 1)" using lo ku by linarith
  then have "- 1022 < ?k + 1" by (rule pow2_less_cancel)
  then have e: "max (?k - 52) (- 1074) = ?k - 52" by simp
  let ?e = "?k - 52"
  let ?q = "x / 2 powi ?e"
  let ?m = "roundHalfEven ?q"
  let ?r = "of_int ?m * (2::rat) powi ?e"
  have pe: "(0::rat) < 2 powi ?e" by (simp add: zero_less_power_int)
  have "?r - x = (of_int ?m - ?q) * 2 powi ?e" using pe by (simp add: field_simps)
  then have "\<bar>?r - x\<bar> = \<bar>of_int ?m - ?q\<bar> * 2 powi ?e"
    using pe by (simp add: abs_mult)
  also have "\<dots> \<le> (1 / 2) * 2 powi ?e"
    using roundHalfEven_error [of ?q] pe by (intro mult_right_mono) simp_all
  also have "\<dots> \<le> \<bar>x\<bar> / 2 ^ 53"
  proof -
    have "(2::rat) powi ?e = 2 powi ?k / 2 ^ 52"
      by (simp add: power_int_diff)
    then have "(1 / 2) * (2::rat) powi ?e = 2 powi ?k / 2 ^ 53" by simp
    also have "\<dots> \<le> \<bar>x\<bar> / 2 ^ 53" using kl by (simp add: divide_right_mono)
    finally show ?thesis .
  qed
  finally have err: "\<bar>?r - x\<bar> \<le> \<bar>x\<bar> / 2 ^ 53" .
  have "\<bar>?r\<bar> \<le> \<bar>x\<bar> + \<bar>x\<bar> / 2 ^ 53" using err by linarith
  also have "\<dots> \<le> 2 powi 1023 + 2 powi 1023 / 2 ^ 53"
    using hi by (intro add_mono divide_right_mono) simp_all
  also have "\<dots> < 2 ^ 1024" by simp
  finally have no: "\<not> 2 ^ 1024 \<le> \<bar>?r\<bar>" by simp
  have "roundD x = Finite ?r"
    using x0 no by (simp add: roundD_def Let_def e)
  with err show ?thesis by blast
qed

lemma roundD_step:
  assumes y: "1 / 2 ^ 100 \<le> y" "y \<le> 2 ^ 100"
    and x: "y * L \<le> x" "x \<le> y * U"
    and LU: "1 / 2 \<le> L" "U \<le> 2"
  shows "\<exists>r. roundD x = Finite r \<and> y * (L * (1 - 1 / 2 ^ 53)) \<le> r
             \<and> r \<le> y * (U * (1 + 1 / 2 ^ 53))"
proof -
  have ypos: "0 < y" using y(1) by (rule less_le_trans [rotated]) simp
  have "y * (1 / 2) \<le> y * L" using LU(1) ypos by (intro mult_left_mono) simp_all
  then have xl: "y / 2 \<le> x" using x(1) by simp
  have "y * U \<le> y * 2" using LU(2) ypos by (intro mult_left_mono) simp_all
  then have xu: "x \<le> 2 * y" using x(2) by simp
  have xpos: "0 < x" using xl ypos by linarith
  have "(2::rat) powi (- 1022) \<le> 1 / 2 ^ 101" by (simp add: power_int_minus_divide)
  also have "\<dots> \<le> y / 2" using y(1) by simp
  finally have lo: "2 powi (- 1022) \<le> \<bar>x\<bar>" using xl xpos by simp
  have "2 * y \<le> 2 ^ 101" using y(2) by simp
  also have "\<dots> \<le> (2::rat) powi 1023" by simp
  finally have hi: "\<bar>x\<bar> \<le> 2 powi 1023" using xu xpos by simp
  from roundD_normal [OF lo hi] obtain r where
    r: "roundD x = Finite r" and err: "\<bar>r - x\<bar> \<le> \<bar>x\<bar> / 2 ^ 53"
    by blast
  have e1: "x * (1 - 1 / 2 ^ 53) \<le> r" and e2: "r \<le> x * (1 + 1 / 2 ^ 53)"
    using err xpos by (simp_all add: abs_if field_simps split: if_splits)
  have "y * (L * (1 - 1 / 2 ^ 53)) = (y * L) * (1 - 1 / 2 ^ 53)" by simp
  also have "\<dots> \<le> x * (1 - 1 / 2 ^ 53)" using x(1) by (intro mult_right_mono) simp_all
  finally have a: "y * (L * (1 - 1 / 2 ^ 53)) \<le> r" using e1 by linarith
  have "x * (1 + 1 / 2 ^ 53) \<le> (y * U) * (1 + 1 / 2 ^ 53)"
    using x(2) by (intro mult_right_mono) simp_all
  then have b: "r \<le> y * (U * (1 + 1 / 2 ^ 53))" using e2 by (simp add: mult.assoc)
  from r a b show ?thesis by blast
qed

text \<open>
  The four roundings of the energy computation -- the difference of the instants, the
  division by \<open>1000\<close>, the product with the power rating, the division by \<open>3600\<close> --
  leave a relative error of at most \<open>2^(-50)\<close>.
\<close>

lemma scale_div_lower: "y * K \<le> c \<Longrightarrow> 0 < k \<Longrightarrow> (y / k) * K \<le> c / (k::rat)"
  by (simp add: divide_right_mono)

lemma scale_div_upper: "c \<le> y * K \<Longrightarrow> 0 < k \<Longrightarrow> c / k \<le> (y / k) * (K::rat)"
  using divide_right_mono [of c "y * K" k] by simp

lemma rel_err: "y * (1 - e) \<le> d \<Longrightarrow> d \<le> y * (1 + e) \<Longrightarrow> \<bar>d - y\<bar> \<le> y * (e::rat)"
  by (simp add: abs_le_iff algebra_simps)

lemma energy_double_positive:
  fixes ms :: int and p :: rat
  assumes ms: "1 \<le> ms" "ms < 2 ^ 53" and p: "1 / 2 ^ 20 \<le> p" "p \<le> 2 ^ 20"
  shows "\<exists>d. divideBy (mulD (divideBy (roundD (of_int ms)) 1000) (Finite p)) 3600 = Finite d
            \<and> \<bar>d - of_int ms / 1000 * p / 3600\<bar> \<le> (of_int ms / 1000 * p / 3600) / 2 ^ 50
            \<and> 0 \<le> d \<and> d < 10 ^ 21"
proof -
  let ?u = "(1::rat) / 2 ^ 53"
  let ?y0 = "of_int ms :: rat"
  let ?y1 = "?y0 / 1000"
  let ?y2 = "?y1 * p"
  let ?y3 = "?y2 / 3600"
  have y0: "1 \<le> ?y0" "?y0 \<le> 2 ^ 53"
  proof -
    show "1 \<le> ?y0" using ms(1) by simp
    have "?y0 \<le> of_int (2 ^ 53)" using ms(2) by (simp only: of_int_le_iff)
    then show "?y0 \<le> 2 ^ 53" by simp
  qed
  have ppos: "0 < p" using p(1) by (rule less_le_trans [rotated]) simp
  have "\<exists>r. roundD ?y0 = Finite r \<and> ?y0 * (1 * (1 - ?u)) \<le> r \<and> r \<le> ?y0 * (1 * (1 + ?u))"
    using y0 by (intro roundD_step) simp_all
  then obtain a where a: "roundD ?y0 = Finite a" "?y0 * (1 - ?u) \<le> a" "a \<le> ?y0 * (1 + ?u)"
    by auto
  have y1: "1 / 2 ^ 100 \<le> ?y1" "?y1 \<le> 2 ^ 100" using y0 by simp_all
  have "\<exists>r. roundD (a / 1000) = Finite r \<and> ?y1 * ((1 - ?u) * (1 - ?u)) \<le> r
            \<and> r \<le> ?y1 * ((1 + ?u) * (1 + ?u))"
    using y1 a(2,3) by (intro roundD_step) simp_all
  then obtain b where b: "roundD (a / 1000) = Finite b" "?y1 * ((1 - ?u) * (1 - ?u)) \<le> b"
      "b \<le> ?y1 * ((1 + ?u) * (1 + ?u))"
    by auto
  have y2: "1 / 2 ^ 100 \<le> ?y2" "?y2 \<le> 2 ^ 100"
  proof -
    have "1 / 2 ^ 100 \<le> (1 / 1000) * (1 / 2 ^ 20 :: rat)" by simp
    also have "\<dots> \<le> ?y1 * p" using y0 p ppos by (intro mult_mono) simp_all
    finally show "1 / 2 ^ 100 \<le> ?y2" .
    have "?y1 * p \<le> (2 ^ 53 / 1000) * 2 ^ 20" using y0 p ppos by (intro mult_mono) simp_all
    also have "\<dots> \<le> (2 ^ 100 :: rat)" by simp
    finally show "?y2 \<le> 2 ^ 100" .
  qed
  have x2: "?y2 * ((1 - ?u) * (1 - ?u)) \<le> b * p" "b * p \<le> ?y2 * ((1 + ?u) * (1 + ?u))"
  proof -
    have "?y1 * ((1 - ?u) * (1 - ?u)) * p \<le> b * p" using b(2) ppos by (intro mult_right_mono) simp_all
    then show "?y2 * ((1 - ?u) * (1 - ?u)) \<le> b * p" by (simp add: mult_ac)
    have "b * p \<le> ?y1 * ((1 + ?u) * (1 + ?u)) * p" using b(3) ppos by (intro mult_right_mono) simp_all
    then show "b * p \<le> ?y2 * ((1 + ?u) * (1 + ?u))" by (simp add: mult_ac)
  qed
  have "\<exists>r. roundD (b * p) = Finite r \<and> ?y2 * (((1 - ?u) * (1 - ?u)) * (1 - ?u)) \<le> r
            \<and> r \<le> ?y2 * (((1 + ?u) * (1 + ?u)) * (1 + ?u))"
    using y2 x2 by (intro roundD_step) simp_all
  then obtain c where c: "roundD (b * p) = Finite c"
      "?y2 * (((1 - ?u) * (1 - ?u)) * (1 - ?u)) \<le> c"
      "c \<le> ?y2 * (((1 + ?u) * (1 + ?u)) * (1 + ?u))"
    by auto
  have y3: "1 / 2 ^ 100 \<le> ?y3" "?y3 \<le> 2 ^ 100"
  proof -
    have "(1 / 2 ^ 100 :: rat) \<le> (1 / 1000) * (1 / 2 ^ 20) / 3600" by simp
    also have "\<dots> \<le> ?y1 * p / 3600"
      using y0 p ppos by (intro divide_right_mono mult_mono) simp_all
    finally show "1 / 2 ^ 100 \<le> ?y3" .
    have y2pos: "0 < ?y2" using y2(1) by (rule less_le_trans [rotated]) simp
    have "?y2 / 3600 \<le> ?y2 / 1" using y2pos by (intro divide_left_mono) simp_all
    with y2(2) show "?y3 \<le> 2 ^ 100" by simp
  qed
  have x3: "?y3 * (((1 - ?u) * (1 - ?u)) * (1 - ?u)) \<le> c / 3600"
      "c / 3600 \<le> ?y3 * (((1 + ?u) * (1 + ?u)) * (1 + ?u))"
    using c(2,3) by (simp_all only: scale_div_lower scale_div_upper zero_less_numeral)
  have "\<exists>r. roundD (c / 3600) = Finite r
            \<and> ?y3 * ((((1 - ?u) * (1 - ?u)) * (1 - ?u)) * (1 - ?u)) \<le> r
            \<and> r \<le> ?y3 * ((((1 + ?u) * (1 + ?u)) * (1 + ?u)) * (1 + ?u))"
    using y3 x3 by (intro roundD_step) simp_all
  then obtain d where d: "roundD (c / 3600) = Finite d"
      "?y3 * ((((1 - ?u) * (1 - ?u)) * (1 - ?u)) * (1 - ?u)) \<le> d"
      "d \<le> ?y3 * ((((1 + ?u) * (1 + ?u)) * (1 + ?u)) * (1 + ?u))"
    by auto
  have y3pos: "0 < ?y3" using y3(1) by (rule less_le_trans [rotated]) simp
  have L: "1 - 1 / 2 ^ 50 \<le> (((1 - ?u) * (1 - ?u)) * (1 - ?u)) * (1 - ?u)" by simp
  have U: "(((1 + ?u) * (1 + ?u)) * (1 + ?u)) * (1 + ?u) \<le> 1 + 1 / 2 ^ 50" by simp
  have "?y3 * (1 - 1 / 2 ^ 50) \<le> ?y3 * ((((1 - ?u) * (1 - ?u)) * (1 - ?u)) * (1 - ?u))"
    using L y3pos by (intro mult_left_mono) simp_all
  with d(2) have lo: "?y3 * (1 - 1 / 2 ^ 50) \<le> d" by linarith
  have "?y3 * ((((1 + ?u) * (1 + ?u)) * (1 + ?u)) * (1 + ?u)) \<le> ?y3 * (1 + 1 / 2 ^ 50)"
    using U y3pos by (intro mult_left_mono) simp_all
  with d(3) have hi: "d \<le> ?y3 * (1 + 1 / 2 ^ 50)" by linarith
  have err: "\<bar>d - ?y3\<bar> \<le> ?y3 / 2 ^ 50"
    using rel_err [OF lo hi] by simp
  have dpos: "0 \<le> d" using lo y3pos
  proof -
    have "0 \<le> ?y3 * (1 - 1 / 2 ^ 50)" using y3pos by (intro mult_nonneg_nonneg) simp_all
    with lo show ?thesis by linarith
  qed
  have "d \<le> ?y3 * 2"
  proof -
    have "?y3 * (1 + 1 / 2 ^ 50) \<le> ?y3 * 2" using y3pos by (intro mult_left_mono) simp_all
    with hi show ?thesis by linarith
  qed
  also have "?y3 * 2 \<le> ((2 ^ 53 / 1000) * 2 ^ 20 / 3600) * 2"
    using y0 p ppos by (intro mult_right_mono divide_right_mono mult_mono) simp_all
  also have "\<dots> < (10 ^ 21 :: rat)" by simp
  finally have small: "d < 10 ^ 21" .
  have "divideBy (mulD (divideBy (roundD ?y0) 1000) (Finite p)) 3600 = Finite d"
    by (simp add: a(1) b(1) c(1) d(1))
  with err dpos small show ?thesis by blast
qed

lemma energy_double_error:
  fixes ms :: int and p :: rat
  assumes ms: "0 \<le> ms" "ms < 2 ^ 53" and p: "1 / 2 ^ 20 \<le> p" "p \<le> 2 ^ 20"
  shows "\<exists>d. divideBy (mulD (divideBy (roundD (of_int ms)) 1000) (Finite p)) 3600 = Finite d
            \<and> \<bar>d - of_int ms / 1000 * p / 3600\<bar> \<le> (of_int ms / 1000 * p / 3600) / 2 ^ 50
            \<and> 0 \<le> d \<and> d < 10 ^ 21"
proof (cases "ms = 0")
  case True
  then have "divideBy (mulD (divideBy (roundD (of_int ms)) 1000) (Finite p)) 3600 = Finite 0"
    by (simp add: roundD_0)
  then show ?thesis using True by simp
next
  case False
  then have "1 \<le> ms" using ms(1) by simp
  then show ?thesis using ms(2) p by (rule energy_double_positive)
qed

subsection \<open>Decimal text and the number it denotes\<close>

lemma floor_half: "\<lfloor>(1::rat) / 2\<rfloor> = 0"
  by (simp add: floor_eq_iff)

lemma below_ten: "d < 10 \<Longrightarrow> d \<in> {0, 1, 2, 3, 4, 5, 6, 7, 8, 9::nat}"
  by auto

lemma digitVal_digitChar: "d < 10 \<Longrightarrow> digitVal (digitChar d) = d"
  using below_ten [of d] by (auto simp add: digitVal_def digitChar_def)

lemma digitChar_plain: "d < 10 \<Longrightarrow> digitChar d \<noteq> CHR ''.'' \<and> digitChar d \<noteq> CHR ''-''"
  using below_ten [of d] by (auto simp add: digitChar_def)

lemma plain_digits: "plain (digits n)"
proof (induction n rule: digits.induct)
  case (1 n)
  show ?case
  proof (cases "n < 10")
    case True
    then show ?thesis using digitChar_plain [of n] by (simp add: digits_small plain_def)
  next
    case False
    then show ?thesis
      using 1 digitChar_plain [of "n mod 10"] by (simp add: digits_large plain_def)
  qed
qed

lemma natOfDigits_snoc: "natOfDigits (s @ [c]) = 10 * natOfDigits s + digitVal c"
  by (simp add: natOfDigits_def)

lemma natOfDigits_append:
  "natOfDigits (a @ b) = natOfDigits a * 10 ^ length b + natOfDigits b"
proof (induction b rule: rev_induct)
  case Nil
  show ?case by (simp add: natOfDigits_def)
next
  case (snoc c b)
  have "natOfDigits (a @ b @ [c]) = 10 * natOfDigits (a @ b) + digitVal c"
    using natOfDigits_snoc [of "a @ b" c] by simp
  then show ?case
    by (simp add: snoc natOfDigits_snoc algebra_simps)
qed

lemma natOfDigits_digits: "natOfDigits (digits n) = n"
proof (induction n rule: digits.induct)
  case (1 n)
  show ?case
  proof (cases "n < 10")
    case True
    then show ?thesis by (simp add: digits_small natOfDigits_def digitVal_digitChar)
  next
    case False
    then show ?thesis
      using 1 by (simp add: digits_large natOfDigits_snoc digitVal_digitChar)
  qed
qed

lemma digitVal_zero: "digitVal CHR ''0'' = 0"
  by (simp add: digitVal_def)

lemma natOfDigits_zeros: "natOfDigits (replicate k CHR ''0'') = 0"
proof (induction k)
  case 0
  show ?case by (simp add: natOfDigits_def)
next
  case (Suc k)
  have "replicate (Suc k) CHR ''0'' = replicate k CHR ''0'' @ [CHR ''0'']"
    by (simp add: replicate_append_same)
  then show ?case
    by (simp only: natOfDigits_snoc Suc digitVal_zero)
qed

lemma natOfDigits_padded: "natOfDigits (replicate k CHR ''0'' @ m) = natOfDigits m"
  by (simp add: natOfDigits_append natOfDigits_zeros)

lemma plain_zeros: "plain (replicate k CHR ''0'')"
  by (simp add: plain_def)

lemma plain_append: "plain (a @ b) = (plain a \<and> plain b)"
  by (auto simp add: plain_def)

lemma unsignedValue_point:
  assumes "plain a"
  shows "unsignedValue (a @ ''.'' @ b)
           = of_nat (natOfDigits a) + of_nat (natOfDigits b) / 10 ^ length b"
proof -
  have "takeWhile (\<lambda>c. c \<noteq> CHR ''.'') (a @ ''.'' @ b) = a"
    using assms by (simp add: plain_def takeWhile_append2 del: append.simps) 
  then show ?thesis
    by (simp add: unsignedValue_def Let_def)
qed

lemma decimalValue_unsigned:
  assumes "plain a" and "a \<noteq> []"
  shows "decimalValue (a @ ''.'' @ b) = unsignedValue (a @ ''.'' @ b)"
  using assms by (cases a) (auto simp add: decimalValue_def plain_def)

lemma decimalValue_negative:
  "decimalValue (''-'' @ t) = - unsignedValue t"
  by (simp add: decimalValue_def)

lemma decimalText_value:
  assumes "0 < f"
  shows "decimalValue (decimalText x f)
           = (if x < 0 then - 1 else 1) * of_nat (nat \<lfloor>\<bar>x\<bar> * 10 ^ f + 1 / 2\<rfloor>) / 10 ^ f"
proof -
  define n where "n = nat \<lfloor>\<bar>x\<bar> * 10 ^ f + 1 / 2\<rfloor>"
  define m where "m = digits n"
  define m1 where "m1 = (if length m \<le> f then replicate (f + 1 - length m) CHR ''0'' @ m else m)"
  define a where "a = take (length m1 - f) m1"
  define b where "b = drop (length m1 - f) m1"
  have mne: "m \<noteq> []" by (simp add: m_def digits_nonempty)
  have len: "f < length m1" using mne by (auto simp add: m1_def)
  have pl: "plain m1" by (simp add: m1_def m_def plain_append plain_zeros plain_digits)
  have val: "natOfDigits m1 = n"
    by (simp add: m1_def m_def natOfDigits_padded natOfDigits_digits)
  have ab: "a @ b = m1" by (simp add: a_def b_def)
  have pa: "plain a" using pl plain_append [of a b] by (simp add: ab)
  have "length a = length m1 - f" by (simp add: a_def)
  then have "0 < length a" using len by simp
  then have ne: "a \<noteq> []" by auto
  have lb: "length b = f" using len by (simp add: b_def)
  have "natOfDigits m1 = natOfDigits a * 10 ^ length b + natOfDigits b"
    using natOfDigits_append [of a b] by (simp only: ab)
  then have split: "n = natOfDigits a * 10 ^ f + natOfDigits b"
    by (simp only: val lb)
  have u: "unsignedValue (a @ ''.'' @ b) = of_nat n / 10 ^ f"
  proof -
    have "unsignedValue (a @ ''.'' @ b)
            = of_nat (natOfDigits a) + of_nat (natOfDigits b) / 10 ^ f"
      using unsignedValue_point [OF pa, of b] by (simp only: lb)
    also have "\<dots> = of_nat (natOfDigits a * 10 ^ f + natOfDigits b) / 10 ^ f"
      by (simp add: field_simps)
    finally show ?thesis by (simp only: split [symmetric])
  qed
  have body: "decimalText x f = (if x < 0 then ''-'' else []) @ (a @ ''.'' @ b)"
    using assms by (simp add: decimalText_def Let_def a_def b_def m1_def m_def n_def)
  show ?thesis
  proof (cases "x < 0")
    case True
    then have "decimalText x f = ''-'' @ (a @ ''.'' @ b)" using body by simp
    then have "decimalValue (decimalText x f) = - unsignedValue (a @ ''.'' @ b)"
      by (simp only: decimalValue_negative)
    then show ?thesis using True u by (simp add: n_def)
  next
    case False
    then have "decimalText x f = a @ ''.'' @ b" using body by simp
    then have "decimalValue (decimalText x f) = unsignedValue (a @ ''.'' @ b)"
      by (simp only: decimalValue_unsigned [OF pa ne])
    then show ?thesis using False u by (simp add: n_def)
  qed
qed

lemma decimalText_nearest:
  assumes "0 < f"
  shows "\<bar>decimalValue (decimalText x f) - x\<bar> \<le> 1 / (2 * 10 ^ f)"
proof -
  let ?y = "\<bar>x\<bar> * 10 ^ f"
  let ?n = "nat \<lfloor>?y + 1 / 2\<rfloor>"
  have y: "0 \<le> ?y" by simp
  then have fl: "0 \<le> \<lfloor>?y + 1 / 2\<rfloor>" by simp
  then have n: "(of_nat ?n :: rat) = of_int \<lfloor>?y + 1 / 2\<rfloor>" by simp
  have "\<bar>(of_int \<lfloor>?y + 1 / 2\<rfloor> :: rat) - ?y\<bar> \<le> 1 / 2" by linarith
  then have near: "\<bar>of_nat ?n - ?y\<bar> \<le> 1 / 2" by (simp only: n)
  have p: "(0::rat) < 10 ^ f" by simp
  have "\<bar>of_nat ?n / 10 ^ f - \<bar>x\<bar>\<bar> = \<bar>of_nat ?n - ?y\<bar> / 10 ^ f"
  proof -
    have "of_nat ?n / 10 ^ f - \<bar>x\<bar> = (of_nat ?n - ?y) / 10 ^ f"
      using p by (simp add: field_simps)
    then show ?thesis using p by (simp add: abs_divide del: of_nat_nat)
  qed
  also have "\<dots> \<le> (1 / 2) / 10 ^ f" using near p by (intro divide_right_mono) simp_all
  finally have m: "\<bar>of_nat ?n / 10 ^ f - \<bar>x\<bar>\<bar> \<le> 1 / (2 * 10 ^ f)" by simp
  show ?thesis
  proof (cases "x < 0")
    case True
    have "decimalValue (decimalText x f) - x = - (of_nat ?n / 10 ^ f - \<bar>x\<bar>)"
      using True by (simp add: decimalText_value [OF assms])
    then show ?thesis using m by (simp only: abs_minus_cancel)
  next
    case False
    have "decimalValue (decimalText x f) - x = of_nat ?n / 10 ^ f - \<bar>x\<bar>"
      using False by (simp add: decimalText_value [OF assms])
    then show ?thesis using m by (simp only:)
  qed
qed

lemma decimalText_shape:
  assumes "0 < f"
  shows "\<exists>a b. decimalText x f = a @ ''.'' @ b \<and> length b = f"
proof -
  define m where "m = digits (nat \<lfloor>\<bar>x\<bar> * 10 ^ f + 1 / 2\<rfloor>)"
  define m1 where "m1 = (if length m \<le> f then replicate (f + 1 - length m) CHR ''0'' @ m else m)"
  define s where "s = (if x < 0 then ''-'' else [])"
  have mne: "m \<noteq> []" by (simp add: m_def digits_nonempty)
  have len: "f < length m1" using mne by (auto simp add: m1_def)
  have "decimalText x f = (s @ take (length m1 - f) m1) @ ''.'' @ drop (length m1 - f) m1"
    using assms by (simp add: decimalText_def Let_def m_def m1_def s_def)
  moreover have "length (drop (length m1 - f) m1) = f"
    using len by simp
  ultimately show ?thesis by blast
qed

text \<open>The text of a number that is not negative, from the integer nearest to its thousandfold.\<close>

lemma decimalText_3:
  assumes "0 \<le> x" and "of_nat n \<le> x * 1000 + 1 / 2" and "x * 1000 + 1 / 2 < of_nat n + 1"
  shows "decimalText x 3
           = (let m = digits n;
                  m1 = (if length m \<le> 3 then replicate (4 - length m) CHR ''0'' @ m else m)
              in take (length m1 - 3) m1 @ ''.'' @ drop (length m1 - 3) m1)"
proof -
  have "\<lfloor>x * 1000 + 1 / 2\<rfloor> = int n"
    using assms(2,3) by (intro floor_unique) simp_all
  then have "nat \<lfloor>\<bar>x\<bar> * 10 ^ 3 + 1 / 2\<rfloor> = n"
    using assms(1) by simp
  moreover have "\<not> x < 0" using assms(1) by simp
  ultimately show ?thesis
    unfolding decimalText_def Let_def by simp
qed

lemma toFixed_small: "\<bar>x\<bar> < 10 ^ 21 \<Longrightarrow> toFixed ext (Finite x) f = decimalText x f"
  by (simp add: toFixed_def)

lemma toFixed_0: "toFixed ext (Finite 0) 3 = ''0.000''"
  by (simp add: toFixed_def decimalText_def Let_def floor_half digits_eval eval_nat_numeral)

lemma decimalText_22: "decimalText 22 3 = ''22.000''"
  using decimalText_3 [where x = 22 and n = 22000] by (simp add: digits_eval)

subsection \<open>send without a transport\<close>

text \<open>
  C10. When the websocket is absent -- before \<^verbatim>\<open>connect\<close>, or after \<^verbatim>\<open>close\<close> has
  deleted it -- \<open>send\<close> throws before it enqueues: the whole state, and with it the
  ledger and the trace of frames, is what it was.
\<close>

theorem send_without_websocket:
  "ws w = None \<Longrightarrow> send ext w c = (Threw WebsocketNotInitialized, w)"
  by (simp add: send_def)

theorem send_without_websocket_witness:
  "send acceptAll (newVCP exampleOptions 0) heartbeat
     = (Threw WebsocketNotInitialized, newVCP exampleOptions 0)
   \<and> send acceptAll (snd (close openWorld)) heartbeat
     = (Threw WebsocketNotInitialized, snd (close openWorld))"
  using send_without_websocket [of "newVCP exampleOptions 0" acceptAll heartbeat]
        send_without_websocket [of "snd (close openWorld)" acceptAll heartbeat]
  by (simp add: ws_newVCP ws_after_close)

subsection \<open>close\<close>



subsection \<open>stopTransaction\<close>

text \<open>
  C8. \<open>stopTransaction\<close> has no failing branch. On an id without a session it leaves the
  state as it is, and a second stop of the same id leaves the state as the first stop
  left it.
\<close>

theorem stopTransaction_idempotent:
  "(transactions w (toString tid) = None \<longrightarrow> stopTransaction w tid = w)
   \<and> stopTransaction (stopTransaction w tid) tid = stopTransaction w tid"
  by (simp add: stopTransaction_def Let_def clearInterval_def fun_upd_idem
           split: option.splits)

theorem stopTransaction_idempotent_witness:
  "transactions openWorld (toString 7) = None
   \<and> stopTransaction openWorld 7 = openWorld
   \<and> transactions (startTransaction openWorld 7 1) (toString 7) \<noteq> None
   \<and> transactions (stopTransaction (startTransaction openWorld 7 1) 7) (toString 7) = None
   \<and> stopTransaction (stopTransaction (startTransaction openWorld 7 1) 7) 7
       = stopTransaction (startTransaction openWorld 7 1) 7"
  using stopTransaction_idempotent [of openWorld 7]
        stopTransaction_idempotent [of "startTransaction openWorld 7 1" 7]
  by (simp add: transactions_openWorld startTransaction_def setInterval_def
        stopTransaction_def Let_def clearInterval_def)

subsection \<open>send: enqueue, validate, transmit\<close>

lemma send_valid:
  assumes "ws w \<noteq> None" and "ocppOutbox w (messageId c) = None" and "payload c \<noteq> JUndefined"
    and "validateOcppRequest ext (ocppVersion (vcpOptions w)) (action c) (stringify (payload c))"
  shows "send ext w c =
           andThen
             (updateStateFromMessage ext
                (w\<lparr>ocppOutbox := (ocppOutbox w)(messageId c \<mapsto> c),
                   trace := trace w @ [OutboxEnqueue c, LogSending (callFrame c),
                                       WsSend (callFrame c)]\<rparr>)
                (action c) (payload c) Outgoing)
             (\<lambda>w3. (Returned,
                    broadcastToAdminClients w3
                      (OcppMessageSent (messageId c) (action c) (payload c) (now w3))))"
  using assms by (auto simp add: send_def enqueue_def parseStringify_def emit_def Let_def)

lemma send_transmits_only_if:
  assumes "transmitted (snd (send ext w c)) \<noteq> transmitted w"
  shows "ws w \<noteq> None \<and> ocppOutbox w (messageId c) = None \<and> payload c \<noteq> JUndefined
    \<and> validateOcppRequest ext (ocppVersion (vcpOptions w)) (action c) (stringify (payload c))"
proof (rule ccontr)
  assume "\<not> ?thesis"
  then have "transmitted (snd (send ext w c)) = transmitted w"
    by (auto simp add: send_def enqueue_def parseStringify_def emit_def Let_def transmitted_def)
  with assms show False by simp
qed

lemma send_heartbeat_transmitted:
  "transmitted (snd (send acceptAll openWorld heartbeat))
     = [JArr [JNum 2, JStr ''id-1'', JStr ''Heartbeat'', JObj []]]"
  by (simp add: eval_defs input_defs transmitted_def)

text \<open>
  C5. Whenever \<open>send\<close> hands a frame to the transport, the call has been enqueued
  before: in the trace the enqueue comes first, then the log line, then the frame; and
  the state that \<open>send\<close> leaves behind -- whether it then returns or a later step
  throws -- holds the call under its id in the ledger.
\<close>

theorem send_enqueue_precedes_transmission:
  assumes "transmitted (snd (send ext w c)) \<noteq> transmitted w"
  shows "ocppOutbox (snd (send ext w c)) (messageId c) = Some c
       \<and> (\<exists>es. trace (snd (send ext w c))
                 = trace w @ [OutboxEnqueue c, LogSending (callFrame c), WsSend (callFrame c)] @ es)
       \<and> transmitted (snd (send ext w c)) = transmitted w @ [callFrame c]"
proof -
  let ?w1 = "w\<lparr>ocppOutbox := (ocppOutbox w)(messageId c \<mapsto> c),
               trace := trace w @ [OutboxEnqueue c, LogSending (callFrame c),
                                   WsSend (callFrame c)]\<rparr>"
  let ?u = "updateStateFromMessage ext ?w1 (action c) (payload c) Outgoing"
  let ?k = "\<lambda>w3. (Returned,
                    broadcastToAdminClients w3
                      (OcppMessageSent (messageId c) (action c) (payload c) (now w3)))"
  have ok: "ws w \<noteq> None \<and> ocppOutbox w (messageId c) = None \<and> payload c \<noteq> JUndefined
    \<and> validateOcppRequest ext (ocppVersion (vcpOptions w)) (action c) (stringify (payload c))"
    using assms by (rule send_transmits_only_if)
  have eq: "send ext w c = andThen ?u ?k"
    using ok by (intro send_valid) simp_all
  obtain es where es: "trace (snd ?u) = trace ?w1 @ es"
    using updateStateFromMessage_trace by blast
  have ob: "ocppOutbox (snd ?u) = ocppOutbox ?w1"
    by (rule updateStateFromMessage_frame)
  have tr: "transmitted (snd ?u) = transmitted ?w1"
    by (rule updateStateFromMessage_frame)
  have t1: "transmitted ?w1 = transmitted w @ [callFrame c]"
    by (simp add: transmitted_def)
  show ?thesis
  proof (cases "fst ?u = Returned")
    case True
    then have s: "snd (send ext w c)
        = broadcastToAdminClients (snd ?u)
            (OcppMessageSent (messageId c) (action c) (payload c) (now (snd ?u)))"
      by (simp add: eq andThen_snd)
    show ?thesis
      unfolding s by (simp add: broadcast_frame broadcast_trace ob es tr t1)
  next
    case False
    then have s: "snd (send ext w c) = snd ?u"
      by (simp add: eq andThen_snd)
    show ?thesis
      unfolding s using tr t1 by (simp add: ob es)
  qed
qed

theorem send_enqueue_precedes_transmission_witness:
  "transmitted (snd (send acceptAll openWorld heartbeat)) \<noteq> transmitted openWorld
   \<and> ocppOutbox (snd (send acceptAll openWorld heartbeat)) (JStr ''id-1'') = Some heartbeat
   \<and> transmitted (snd (send acceptAll openWorld heartbeat))
       = [JArr [JNum 2, JStr ''id-1'', JStr ''Heartbeat'', JObj []]]"
proof -
  have h: "transmitted (snd (send acceptAll openWorld heartbeat)) \<noteq> transmitted openWorld"
    by (simp add: send_heartbeat_transmitted transmitted_openWorld)
  have m: "messageId heartbeat = JStr ''id-1''"
    by (simp add: heartbeat_def call_def)
  show ?thesis
    using h send_enqueue_precedes_transmission [OF h] by (simp add: m send_heartbeat_transmitted)
qed

text \<open>
  C4, as the code has it. A call with a fresh id whose payload the validator refuses is
  not transmitted and the validator's error reaches the caller, but the entry that was
  enqueued before the validation stays in the ledger.
\<close>

theorem send_schema_violation_keeps_entry:
  assumes "ws w \<noteq> None" and "ocppOutbox w (messageId c) = None" and "payload c \<noteq> JUndefined"
    and "\<not> validateOcppRequest ext (ocppVersion (vcpOptions w)) (action c)
             (stringify (payload c))"
  shows "send ext w c
           = (Threw SchemaViolation,
              w\<lparr>ocppOutbox := (ocppOutbox w)(messageId c \<mapsto> c),
                 trace := trace w @ [OutboxEnqueue c, LogSending (callFrame c)]\<rparr>)
         \<and> transmitted (snd (send ext w c)) = transmitted w"
  using assms
  by (auto simp add: send_def enqueue_def parseStringify_def emit_def Let_def transmitted_def)

theorem send_schema_violation_keeps_entry_witness:
  "ws openWorld \<noteq> None \<and> ocppOutbox openWorld (messageId heartbeat) = None
   \<and> payload heartbeat \<noteq> JUndefined
   \<and> \<not> validateOcppRequest rejectAll (ocppVersion (vcpOptions openWorld)) (action heartbeat)
          (stringify (payload heartbeat))
   \<and> fst (send rejectAll openWorld heartbeat) = Threw SchemaViolation
   \<and> transmitted (snd (send rejectAll openWorld heartbeat)) = []
   \<and> ocppOutbox (snd (send rejectAll openWorld heartbeat)) (messageId heartbeat) = Some heartbeat"
proof -
  have a: "ws openWorld \<noteq> None" by (rule ws_openWorld)
  have b: "ocppOutbox openWorld (messageId heartbeat) = None" by (rule ocppOutbox_openWorld)
  have c: "payload heartbeat \<noteq> JUndefined" by (simp add: heartbeat_def call_def)
  have d: "\<not> validateOcppRequest rejectAll (ocppVersion (vcpOptions openWorld))
               (action heartbeat) (stringify (payload heartbeat))"
    by (simp add: rejectAll_def)
  show ?thesis
    using a b c d send_schema_violation_keeps_entry [OF a b c d]
    by (simp add: transmitted_def trace_openWorld)
qed

text \<open>
  C4, as the specification has it, fails: after the refused send the ledger is not what
  it was before; the id of the call is now bound.
\<close>

theorem send_schema_violation_changes_ledger:
  "fst (send rejectAll openWorld heartbeat) = Threw SchemaViolation
   \<and> ocppOutbox openWorld (JStr ''id-1'') = None
   \<and> ocppOutbox (snd (send rejectAll openWorld heartbeat)) (JStr ''id-1'') = Some heartbeat"
  by (simp add: eval_defs input_defs)

subsection \<open>The receive path: results\<close>

text \<open>
  C1, as the code has it. A CallResult with an object payload that the validator accepts
  and whose id has an entry reaches \<^verbatim>\<open>handleCallResult\<close> with the ledger exactly as it
  was: the entry is read, not taken. So, unless the handler itself changes the ledger, the
  entry is still there after the frame has been processed, for the next CallResult with
  the same id to find.
\<close>

theorem onMessage_result_keeps_entry:
  assumes entry: "ocppOutbox w mid = Some c"
    and valid: "validateOcppResponse ext (ocppVersion (vcpOptions w)) (action c) (JObj kvs)"
  shows "(\<exists>wa es. onMessage ext h w (Some (JArr [JNum 3, mid, JObj kvs]))
                    = handleCallResult h wa c
                        \<lparr>messageId = mid, action = action c, payload = JObj kvs\<rparr>
                \<and> ocppOutbox wa = ocppOutbox w
                \<and> trace wa = trace w @ es @
                     [HandleCallResult c
                        \<lparr>messageId = mid, action = action c, payload = JObj kvs\<rparr>])
       \<and> ((\<forall>w' c' r'. ocppOutbox (snd (handleCallResult h w' c' r')) = ocppOutbox w')
            \<longrightarrow> ocppOutbox (snd (onMessage ext h w (Some (JArr [JNum 3, mid, JObj kvs])))) mid
                  = Some c)"
proof -
  let ?m = "Some (JArr [JNum 3, mid, JObj kvs])"
  let ?r = "\<lparr>messageId = mid, action = action c, payload = JObj kvs\<rparr>"
  let ?w0 = "emit w (LogReceive ?m)"
  let ?w1 = "snd (updateStateFromCallResult ?w0 (action c) (JObj kvs))"
  let ?w2 = "broadcastToAdminClients ?w1
               (OcppCallResultReceived mid (action c) (JObj kvs) (now ?w1))"
  let ?wa = "emit ?w2 (HandleCallResult c ?r)"
  have eq: "onMessage ext h w ?m = handleCallResult h ?wa c ?r"
    using entry valid
    by (simp add: onMessage_def get_def element_def Let_def andThen_Returned
          updateStateFromCallResult_object emit_frame broadcast_frame
          updateStateFromCallResult_frame)
  have ob: "ocppOutbox ?wa = ocppOutbox w"
    by (simp add: emit_frame broadcast_frame updateStateFromCallResult_frame)
  obtain es1 where es1: "trace ?w1 = trace ?w0 @ es1"
    using updateStateFromCallResult_trace by blast
  have tr: "trace ?wa = trace w @ (LogReceive ?m # es1 @
              (if adminWs ?w1 = None then []
               else [AdminBroadcast (OcppCallResultReceived mid (action c) (JObj kvs) (now ?w1))]))
              @ [HandleCallResult c ?r]"
    by (simp add: emit_frame broadcast_trace es1)
  have first: "\<exists>wa es. onMessage ext h w ?m = handleCallResult h wa c ?r
                \<and> ocppOutbox wa = ocppOutbox w
                \<and> trace wa = trace w @ es @ [HandleCallResult c ?r]"
    using eq ob tr by blast
  have second: "(\<forall>w' c' r'. ocppOutbox (snd (handleCallResult h w' c' r')) = ocppOutbox w')
            \<longrightarrow> ocppOutbox (snd (onMessage ext h w ?m)) mid = Some c"
    using entry by (simp add: eq ob)
  from first second show ?thesis by blast
qed

theorem onMessage_result_keeps_entry_witness:
  "ocppOutbox (snd (send acceptAll openWorld heartbeat)) (JStr ''id-1'') = Some heartbeat
   \<and> validateOcppResponse acceptAll
        (ocppVersion (vcpOptions (snd (send acceptAll openWorld heartbeat))))
        (action heartbeat) (JObj [(''currentTime'', JStr ''t'')])
   \<and> ocppOutbox (snd (onMessage acceptAll quietHandler
                         (snd (send acceptAll openWorld heartbeat)) heartbeatResult))
        (JStr ''id-1'') = Some heartbeat"
proof -
  have a: "ocppOutbox (snd (send acceptAll openWorld heartbeat)) (JStr ''id-1'') = Some heartbeat"
    by (rule sent_heartbeat_entry)
  have b: "validateOcppResponse acceptAll
        (ocppVersion (vcpOptions (snd (send acceptAll openWorld heartbeat))))
        (action heartbeat) (JObj [(''currentTime'', JStr ''t'')])"
    by (simp add: acceptAll_def)
  have q: "\<forall>w' c' r'. ocppOutbox (snd (handleCallResult quietHandler w' c' r')) = ocppOutbox w'"
    by (simp add: quietHandler_def)
  show ?thesis
    using a b q onMessage_result_keeps_entry [OF a b, of quietHandler]
    by (simp add: heartbeatResult_def)
qed

text \<open>
  C1, as the specification has it, fails: after a heartbeat has been sent and its
  CallResult processed, the entry is still in the ledger, and the same CallResult
  processed a second time returns normally with the handler invoked a second time.
\<close>

theorem result_processed_twice:
  "ocppOutbox (snd (onMessage acceptAll quietHandler
                      (snd (send acceptAll openWorld heartbeat)) heartbeatResult))
     (JStr ''id-1'') = Some heartbeat
   \<and> fst (onMessage acceptAll quietHandler
            (snd (onMessage acceptAll quietHandler
                    (snd (send acceptAll openWorld heartbeat)) heartbeatResult))
            heartbeatResult) = Returned
   \<and> length (handlerCalls
        (snd (onMessage acceptAll quietHandler
            (snd (onMessage acceptAll quietHandler
                    (snd (send acceptAll openWorld heartbeat)) heartbeatResult))
            heartbeatResult))) = 2"
  by (simp add: eval_defs input_defs handlerCalls_def)

text \<open>
  C2, as the code has it. A CallResult whose id has no entry invokes no handler and
  leaves ledger, transport and flags alone, but the frame is not dropped quietly:
  \<^verbatim>\<open>_onMessage\<close> throws \<^verbatim>\<open>Error("Received CallResult for unknown messageId=...")\<close>, and
  nothing on the receive path catches it.
\<close>

theorem onMessage_unknown_result_throws:
  assumes "ocppOutbox w (element rest 0) = None"
  shows "onMessage ext h w (Some (JArr (JNum 3 # rest)))
           = (Threw (UnknownMessageId (element rest 0)),
              emit w (LogReceive (Some (JArr (JNum 3 # rest)))))
       \<and> handlerCalls (snd (onMessage ext h w (Some (JArr (JNum 3 # rest))))) = handlerCalls w
       \<and> ocppOutbox (snd (onMessage ext h w (Some (JArr (JNum 3 # rest))))) = ocppOutbox w
       \<and> ws (snd (onMessage ext h w (Some (JArr (JNum 3 # rest))))) = ws w
       \<and> isFinishing (snd (onMessage ext h w (Some (JArr (JNum 3 # rest))))) = isFinishing w"
proof -
  have eq: "onMessage ext h w (Some (JArr (JNum 3 # rest)))
           = (Threw (UnknownMessageId (element rest 0)),
              emit w (LogReceive (Some (JArr (JNum 3 # rest)))))"
    using assms by (simp add: onMessage_def Let_def get_def emit_frame)
  show ?thesis
    unfolding eq by (simp add: emit_frame handlerCalls_emit)
qed

theorem onMessage_unknown_result_throws_witness:
  "ocppOutbox (snd (send acceptAll openWorld startTransactionCall))
     (element [JStr ''no-such-id'', JObj [(''transactionId'', JNum 1)]] 0) = None
   \<and> onMessage acceptAll answeringHandler (snd (send acceptAll openWorld startTransactionCall))
       strayResult
     = (Threw (UnknownMessageId (JStr ''no-such-id'')),
        emit (snd (send acceptAll openWorld startTransactionCall)) (LogReceive strayResult))"
proof -
  have a: "ocppOutbox (snd (send acceptAll openWorld startTransactionCall))
     (element [JStr ''no-such-id'', JObj [(''transactionId'', JNum 1)]] 0) = None"
    by (simp add: element_def sent_startTransaction_ledger)
  show ?thesis
    using a onMessage_unknown_result_throws [OF a, of acceptAll answeringHandler]
    by (simp add: strayResult_def element_def)
qed

text \<open>
  C2, as the specification has it, fails: after \<^verbatim>\<open>StartTransaction\<close> has been sent, a
  CallResult with an unknown id makes the receive path throw.
\<close>

theorem unknown_result_escapes:
  "fst (onMessage acceptAll quietHandler
          (snd (send acceptAll openWorld startTransactionCall)) strayResult)
     = Threw (UnknownMessageId (JStr ''no-such-id''))"
  by (simp add: eval_defs input_defs)

subsection \<open>The receive path: calls\<close>

text \<open>
  C3, as the code has it. An inbound Call whose payload the validator refuses is mirrored
  to the admin socket and then the validator's error leaves \<^verbatim>\<open>_onMessage\<close>: no frame
  is sent to the peer, so no CallError either, and no handler runs.
\<close>

theorem onMessage_invalid_call_throws:
  assumes "\<not> validateOcppRequest ext (ocppVersion (vcpOptions w)) (element rest 1) (element rest 2)"
  shows "onMessage ext h w (Some (JArr (JNum 2 # rest)))
           = (Threw SchemaViolation,
              broadcastToAdminClients (emit w (LogReceive (Some (JArr (JNum 2 # rest)))))
                (OcppMessageReceived (element rest 0) (element rest 1) (element rest 2) (now w)))
         \<and> transmitted (snd (onMessage ext h w (Some (JArr (JNum 2 # rest))))) = transmitted w
         \<and> handlerCalls (snd (onMessage ext h w (Some (JArr (JNum 2 # rest))))) = handlerCalls w"
proof -
  let ?m = "Some (JArr (JNum 2 # rest))"
  have eq: "onMessage ext h w ?m
           = (Threw SchemaViolation,
              broadcastToAdminClients (emit w (LogReceive ?m))
                (OcppMessageReceived (element rest 0) (element rest 1) (element rest 2) (now w)))"
    using assms by (simp add: onMessage_def Let_def broadcast_frame emit_frame)
  show ?thesis
    unfolding eq by (simp add: broadcast_frame transmitted_emit handlerCalls_emit)
qed

theorem onMessage_invalid_call_throws_witness:
  "\<not> validateOcppRequest rejectAll (ocppVersion (vcpOptions openWorld))
        (element [JStr ''srv-1'', JStr ''Reset'', JObj [(''type'', JStr ''Hard'')]] 1)
        (element [JStr ''srv-1'', JStr ''Reset'', JObj [(''type'', JStr ''Hard'')]] 2)
   \<and> fst (onMessage rejectAll answeringHandler openWorld resetFrame) = Threw SchemaViolation
   \<and> transmitted (snd (onMessage rejectAll answeringHandler openWorld resetFrame)) = []
   \<and> handlerCalls (snd (onMessage rejectAll answeringHandler openWorld resetFrame)) = []"
proof -
  have a: "\<not> validateOcppRequest rejectAll (ocppVersion (vcpOptions openWorld))
        (element [JStr ''srv-1'', JStr ''Reset'', JObj [(''type'', JStr ''Hard'')]] 1)
        (element [JStr ''srv-1'', JStr ''Reset'', JObj [(''type'', JStr ''Hard'')]] 2)"
    by (simp add: rejectAll_def)
  note r = onMessage_invalid_call_throws [OF a, of answeringHandler]
  have f: "fst (onMessage rejectAll answeringHandler openWorld resetFrame) = Threw SchemaViolation"
    unfolding resetFrame_def by (simp add: conjunct1 [OF r])
  have t: "transmitted (snd (onMessage rejectAll answeringHandler openWorld resetFrame)) = []"
    unfolding resetFrame_def
    by (simp only: conjunct1 [OF conjunct2 [OF r]] transmitted_openWorld)
  have c: "handlerCalls (snd (onMessage rejectAll answeringHandler openWorld resetFrame)) = []"
    unfolding resetFrame_def
    by (simp only: conjunct2 [OF conjunct2 [OF r]] handlerCalls_openWorld)
  from a f t c show ?thesis by blast
qed

text \<open>
  C3, as the specification has it, fails: with a handler that would answer, the refused
  \<^verbatim>\<open>Reset\<close> call ends in the validator's exception and nothing is sent back; the same
  call, accepted, is answered.
\<close>

theorem invalid_call_unanswered:
  "fst (onMessage rejectAll answeringHandler openWorld resetFrame) = Threw SchemaViolation
   \<and> transmitted (snd (onMessage rejectAll answeringHandler openWorld resetFrame)) = []
   \<and> transmitted (snd (onMessage acceptAll answeringHandler openWorld resetFrame))
       = [JArr [JNum 3, JStr ''srv-1'', JObj []]]"
  by (simp add: eval_defs input_defs transmitted_def)

subsection \<open>Telemetry of a running session\<close>

lemma reportedEnergy_meterValuesCall:
  "reportedEnergy (meterValuesCall ext w mid tid cid)
     = Inr (JStr (toFixed ext
                    (divideBy (mulD (getMeterValue w tid) (CHARGING_POWER_KW ext)) 3600) 3))"
  by (simp add: reportedEnergy_def meterValuesCall_def call_def bindE_def)

lemma sessionAfter_timer:
  "timers (sessionAfter ms) 0
     = Some \<lparr>intervalMs = 60000, timerTransactionId = 7, timerConnectorId = 1\<rparr>"
  by (simp add: sessionAfter_def advance_def startTransaction_def setInterval_def input_defs
        emit_def METER_VALUES_INTERVAL_SEC_def)

lemma sessionAfter_session:
  "transactions (sessionAfter ms) (toString 7)
     = Some \<lparr>transactionId = 7, txMeterValue = Finite 0, startedAt = 0, connectorId = 1,
             meterValuesTimer = Some 0\<rparr>"
  by (simp add: sessionAfter_def advance_def startTransaction_def setInterval_def input_defs
        emit_def)

lemma sessionAfter_frame:
  "ws (sessionAfter ms) \<noteq> None" "ocppOutbox (sessionAfter ms) k = None"
  "adminWs (sessionAfter ms) = Some (WebSocketServer 9999)"
  "trace (sessionAfter ms) = [LogConnecting]" "now (sessionAfter ms) = ms"
  by (simp_all add: sessionAfter_def advance_def startTransaction_def setInterval_def input_defs
        emit_def)

lemma acceptAll_frame:
  "validateOcppRequest acceptAll v a p" "CHARGING_POWER_KW acceptAll = Finite 22"
  by (simp_all add: acceptAll_def)

text \<open>The call of the callback, a given time after the start of the session.\<close>

lemma meterValuesCall_sessionAfter:
  "meterValuesCall acceptAll (sessionAfter ms) ''id-9'' 7 1
     = \<lparr>messageId = JStr ''id-9'', action = JStr ''MeterValues'',
        payload =
          JObj [(''connectorId'', JNum 1), (''transactionId'', JNum 7),
                (''meterValue'',
                 JArr [JObj [(''timestamp'', JNum (of_int ms)),
                             (''sampledValue'',
                              JArr [JObj [(''value'',
                                           JStr (toFixed acceptAll
                                                   (divideBy
                                                      (mulD (divideBy (roundD (of_int ms)) 1000)
                                                         (Finite 22))
                                                      3600)
                                                   3)),
                                          (''measurand'', JStr ''Energy.Active.Import.Register''),
                                          (''unit'', JStr ''kWh'')]])]])]\<rparr>"
  by (simp add: meterValuesCall_def call_def getMeterValue_def sessionAfter_session
        sessionAfter_frame acceptAll_frame)

lemma send_meterValues:
  assumes "ws w \<noteq> None" and "ocppOutbox w (JStr mid) = None" and "trace w = [LogConnecting]"
  shows "transmitted
           (snd (send acceptAll w
                   \<lparr>messageId = JStr mid, action = JStr ''MeterValues'',
                    payload =
                      JObj [(''connectorId'', JNum c), (''transactionId'', JNum i),
                            (''meterValue'',
                             JArr [JObj [(''timestamp'', JNum n),
                                         (''sampledValue'',
                                          JArr [JObj [(''value'', JStr v),
                                                      (''measurand'', JStr g),
                                                      (''unit'', JStr ''kWh'')]])]])]\<rparr>))
         = [JArr [JNum 2, JStr mid, JStr ''MeterValues'',
              JObj [(''connectorId'', JNum c), (''transactionId'', JNum i),
                    (''meterValue'',
                     JArr [JObj [(''timestamp'', JNum n),
                                 (''sampledValue'',
                                  JArr [JObj [(''value'', JStr v),
                                              (''measurand'', JStr g),
                                              (''unit'', JStr ''kWh'')]])]])]]]"
proof -
  have start: "transmitted (w\<lparr>ocppOutbox := l\<rparr>) = []" for l
    using assms(3) by (simp add: transmitted_def)
  from assms(1) obtain y where y: "ws w = Some y" by auto
  show ?thesis
    using y assms(2)
    by (simp add: send_def enqueue_def parseStringify_def callFrame_def Let_def acceptAll_frame
          andThen_snd emit_frame broadcast_frame updateStateFromMessage_frame transmitted_emit
          start)
qed

lemma fireTimer_sessionAfter:
  "fireTimer acceptAll (sessionAfter ms) ''id-9'' 0
     = send acceptAll (sessionAfter ms) (meterValuesCall acceptAll (sessionAfter ms) ''id-9'' 7 1)"
  by (simp add: fireTimer_def sessionAfter_timer meterValuesTick_def)

text \<open>The double that the callback formats, an hour, 58.5 s and 62.1 s after the start.\<close>

lemma energy_3600000:
  "divideBy (mulD (divideBy (roundD (of_int 3600000)) 1000) (Finite 22)) 3600 = Finite 22"
proof -
  have 1: "roundD (of_int 3600000) = Finite 3600000"
    using roundD_eqI [where x = 3600000 and k = 21 and m = 7730941132800000] by simp
  have 2: "roundD (3600000 / 1000) = Finite 3600"
    using roundD_eqI [where x = 3600 and k = 11 and m = 7916483719987200] by simp
  have 3: "roundD (3600 * 22) = Finite 79200"
    using roundD_eqI [where x = 79200 and k = 16 and m = 5442582557491200] by simp
  have 4: "roundD (79200 / 3600) = Finite 22"
    using roundD_eqI [where x = 22 and k = 4 and m = 6192449487634432] by simp
  show ?thesis
    by (simp only: 1 2 3 4 divideBy.simps mulD.simps)
qed

lemma energy_58500:
  "divideBy (mulD (divideBy (roundD (of_int 58500)) 1000) (Finite 22)) 3600
     = Finite (of_int 6440147467139809 * 2 powi (- 54))"
proof -
  have 1: "roundD (of_int 58500) = Finite 58500"
    using roundD_eqI [where x = 58500 and k = 15 and m = 8040178778112000] by simp
  have 2: "roundD (58500 / 1000) = Finite (117 / 2)"
    using roundD_eqI [where x = "117 / 2" and k = 5 and m = 8233143068786688] by simp
  have 3: "roundD (117 / 2 * 22) = Finite 1287"
    using roundD_eqI [where x = 1287 and k = 10 and m = 5660285859790848] by simp
  have 4: "roundD (1287 / 3600) = Finite (of_int 6440147467139809 * 2 powi (- 54))"
    using roundD_eqI [where x = "1287 / 3600" and k = "- 2" and m = 6440147467139809] by simp
  show ?thesis
    by (simp only: 1 2 3 4 divideBy.simps mulD.simps)
qed

lemma energy_62100:
  "divideBy (mulD (divideBy (roundD (of_int 62100)) 1000) (Finite 22)) 3600
     = Finite (of_int 6836464234348413 * 2 powi (- 54))"
proof -
  have 1: "roundD (of_int 62100) = Finite 62100"
    using roundD_eqI [where x = 62100 and k = 15 and m = 8534959010611200] by simp
  have 2: "roundD (62100 / 1000) = Finite (of_int 8739798026865869 * 2 powi (- 47))"
    using roundD_eqI [where x = "62100 / 1000" and k = 5 and m = 8739798026865869] by simp
  have 3: "roundD (of_int 8739798026865869 * 2 powi (- 47) * 22)
             = Finite (of_int 6008611143470285 * 2 powi (- 42))"
    using roundD_eqI [where x = "of_int 8739798026865869 * 2 powi (- 47) * 22" and k = 10
                        and m = 6008611143470285]
    by simp
  have 4: "roundD (of_int 6008611143470285 * 2 powi (- 42) / 3600)
             = Finite (of_int 6836464234348413 * 2 powi (- 54))"
    using roundD_eqI [where x = "of_int 6008611143470285 * 2 powi (- 42) / 3600" and k = "- 2"
                        and m = 6836464234348413]
    by simp
  show ?thesis
    by (simp only: 1 2 3 4 divideBy.simps mulD.simps)
qed

lemma decimalText_58500:
  "decimalText (of_int 6440147467139809 * 2 powi (- 54)) 3 = ''0.357''"
  using decimalText_3 [where x = "of_int 6440147467139809 * 2 powi (- 54)" and n = 357]
  by (simp add: digits_eval)

lemma decimalText_62100:
  "decimalText (of_int 6836464234348413 * 2 powi (- 54)) 3 = ''0.380''"
  using decimalText_3 [where x = "of_int 6836464234348413 * 2 powi (- 54)" and n = 380]
  by (simp add: digits_eval)

text \<open>
  The reading in watt-hours follows the doubles as well: 21 minutes at 22 kW are exactly
  7700 Wh, and \<^verbatim>\<open>getMeterValueWh\<close> returns 7699.
\<close>

lemma getMeterValueWh_1260000:
  "getMeterValueWh acceptAll (sessionAfter 1260000) 7 = Finite 7699"
proof -
  have 1: "roundD (of_int 1260000) = Finite 1260000"
    using roundD_eqI [where x = 1260000 and k = 20 and m = 5411658792960000] by simp
  have 2: "roundD (1260000 / 1000) = Finite 1260"
    using roundD_eqI [where x = 1260 and k = 10 and m = 5541538603991040] by simp
  have 3: "roundD (1260 / 3600) = Finite (of_int 6305039478318694 * 2 powi (- 54))"
    using roundD_eqI [where x = "1260 / 3600" and k = "- 2" and m = 6305039478318694] by simp
  have 4: "roundD (of_int 6305039478318694 * 2 powi (- 54) * 22)
             = Finite (of_int 8669429282688204 * 2 powi (- 50))"
    using roundD_eqI [where x = "of_int 6305039478318694 * 2 powi (- 54) * 22" and k = 2
                        and m = 8669429282688204]
    by simp
  have 5: "roundD (of_int 8669429282688204 * 2 powi (- 50) * 1000)
             = Finite (of_int 8466239533875199 * 2 powi (- 40))"
    using roundD_eqI [where x = "of_int 8669429282688204 * 2 powi (- 50) * 1000" and k = 12
                        and m = 8466239533875199]
    by simp
  have 6: "\<lfloor>of_int 8466239533875199 * 2 powi (- 40) :: rat\<rfloor> = 7699"
    by (simp add: floor_eq_iff)
  have "getMeterValue (sessionAfter 1260000) 7 = divideBy (roundD (of_int 1260000)) 1000"
    by (simp add: getMeterValue_def sessionAfter_session sessionAfter_frame)
  then have "getMeterValueWh acceptAll (sessionAfter 1260000) 7
               = Math_floor (Finite (of_int 8466239533875199 * 2 powi (- 40)))"
    by (simp only: getMeterValueWh_def acceptAll_frame 1 2 3 4 5 divideBy.simps mulD.simps)
  then show ?thesis
    by (simp only: Math_floor_def double.case 6) simp
qed

lemma reading_sessionAfter:
  assumes "divideBy (mulD (divideBy (roundD (of_int ms)) 1000) (Finite 22)) 3600 = Finite d"
    and "\<bar>d\<bar> < 10 ^ 21" and "decimalText d 3 = v"
  shows "reportedEnergy (meterValuesCall acceptAll (sessionAfter ms) ''id-9'' 7 1) = Inr (JStr v)"
    and "transmitted (snd (fireTimer acceptAll (sessionAfter ms) ''id-9'' 0))
           = [JArr [JNum 2, JStr ''id-9'', JStr ''MeterValues'',
                JObj [(''connectorId'', JNum 1), (''transactionId'', JNum 7),
                      (''meterValue'',
                       JArr [JObj [(''timestamp'', JNum (of_int ms)),
                                   (''sampledValue'',
                                    JArr [JObj [(''value'', JStr v),
                                                (''measurand'',
                                                 JStr ''Energy.Active.Import.Register''),
                                                (''unit'', JStr ''kWh'')]])]])]]]"
proof -
  have v: "toFixed acceptAll
             (divideBy (mulD (divideBy (roundD (of_int ms)) 1000) (Finite 22)) 3600) 3 = v"
    using assms by (simp add: toFixed_small)
  show "reportedEnergy (meterValuesCall acceptAll (sessionAfter ms) ''id-9'' 7 1) = Inr (JStr v)"
    by (simp add: meterValuesCall_sessionAfter v reportedEnergy_def bindE_def)
  show "transmitted (snd (fireTimer acceptAll (sessionAfter ms) ''id-9'' 0))
           = [JArr [JNum 2, JStr ''id-9'', JStr ''MeterValues'',
                JObj [(''connectorId'', JNum 1), (''transactionId'', JNum 7),
                      (''meterValue'',
                       JArr [JObj [(''timestamp'', JNum (of_int ms)),
                                   (''sampledValue'',
                                    JArr [JObj [(''value'', JStr v),
                                                (''measurand'',
                                                 JStr ''Energy.Active.Import.Register''),
                                                (''unit'', JStr ''kWh'')]])]])]]]"
    unfolding fireTimer_sessionAfter meterValuesCall_sessionAfter v
    by (rule send_meterValues) (simp_all add: sessionAfter_frame)
qed

text \<open>
  C6, as the code has it. When the interval timer of a session fires while the session is
  in the table, the callback hands to \<open>send\<close> a \<^verbatim>\<open>MeterValues\<close> call whose reading is
  \<^verbatim>\<open>toFixed(3)\<close> of the double that the source computes: the milliseconds since the
  session's \<open>startedAt\<close>, divided by 1000, multiplied by the power rating, divided by 3600,
  each step rounded to a double. For a power rating between \<open>2^(-20)\<close> and \<open>2^20\<close> kW
  and an elapsed time below \<open>2^53\<close> ms, that double is within the relative error
  \<open>2^(-50)\<close> of \<open>elapsed_seconds * power_kW / 3600\<close>, and the reading is a text with
  three digits after the point that denotes a number within half a thousandth of the double.
  With 22 kW after exactly 3600 seconds the reading is \<^verbatim>\<open>22.000\<close>.
\<close>

theorem telemetry_reports_energy:
  assumes tm: "timers w h = Some tm"
    and t: "transactions w (toString (timerTransactionId tm)) = Some t"
  shows "fireTimer ext w mid h
           = send ext w (meterValuesCall ext w mid (timerTransactionId tm) (timerConnectorId tm))
       \<and> reportedEnergy (meterValuesCall ext w mid (timerTransactionId tm) (timerConnectorId tm))
           = Inr (JStr (toFixed ext
                          (divideBy
                             (mulD (divideBy (roundD (of_int (now w - startedAt t))) 1000)
                                (CHARGING_POWER_KW ext))
                             3600)
                          3))
       \<and> (\<forall>p. CHARGING_POWER_KW ext = Finite p \<longrightarrow> 1 / 2 ^ 20 \<le> p \<longrightarrow> p \<le> 2 ^ 20 \<longrightarrow>
              0 \<le> now w - startedAt t \<longrightarrow> now w - startedAt t < 2 ^ 53 \<longrightarrow>
              (\<exists>s d. reportedEnergy
                        (meterValuesCall ext w mid (timerTransactionId tm) (timerConnectorId tm))
                        = Inr (JStr s)
                   \<and> divideBy
                       (mulD (divideBy (roundD (of_int (now w - startedAt t))) 1000) (Finite p))
                       3600 = Finite d
                   \<and> \<bar>d - of_int (now w - startedAt t) / 1000 * p / 3600\<bar>
                       \<le> of_int (now w - startedAt t) / 1000 * p / 3600 / 2 ^ 50
                   \<and> \<bar>decimalValue s - d\<bar> \<le> 1 / 2000
                   \<and> (\<exists>a b. s = a @ ''.'' @ b \<and> length b = 3)))
       \<and> (CHARGING_POWER_KW ext = Finite 22 \<longrightarrow> now w - startedAt t = 3600000 \<longrightarrow>
            reportedEnergy
              (meterValuesCall ext w mid (timerTransactionId tm) (timerConnectorId tm))
              = Inr (JStr ''22.000''))"
proof -
  let ?c = "meterValuesCall ext w mid (timerTransactionId tm) (timerConnectorId tm)"
  let ?ms = "now w - startedAt t"
  have a: "fireTimer ext w mid h = send ext w ?c"
    using tm by (simp add: fireTimer_def meterValuesTick_def)
  have g: "getMeterValue w (timerTransactionId tm) = divideBy (roundD (of_int ?ms)) 1000"
    using t by (simp add: getMeterValue_def)
  have b: "reportedEnergy ?c
           = Inr (JStr (toFixed ext
                          (divideBy (mulD (divideBy (roundD (of_int ?ms)) 1000)
                                       (CHARGING_POWER_KW ext)) 3600) 3))"
    by (simp only: reportedEnergy_meterValuesCall g)
  have c: "\<exists>s d. reportedEnergy ?c = Inr (JStr s)
                \<and> divideBy (mulD (divideBy (roundD (of_int ?ms)) 1000) (Finite p)) 3600 = Finite d
                \<and> \<bar>d - of_int ?ms / 1000 * p / 3600\<bar> \<le> of_int ?ms / 1000 * p / 3600 / 2 ^ 50
                \<and> \<bar>decimalValue s - d\<bar> \<le> 1 / 2000
                \<and> (\<exists>a b. s = a @ ''.'' @ b \<and> length b = 3)"
    if p: "CHARGING_POWER_KW ext = Finite p" "1 / 2 ^ 20 \<le> p" "p \<le> 2 ^ 20"
      and ms: "0 \<le> ?ms" "?ms < 2 ^ 53" for p
  proof -
    from energy_double_error [OF ms p(2,3)] obtain d where
      d: "divideBy (mulD (divideBy (roundD (of_int ?ms)) 1000) (Finite p)) 3600 = Finite d"
      and err: "\<bar>d - of_int ?ms / 1000 * p / 3600\<bar> \<le> of_int ?ms / 1000 * p / 3600 / 2 ^ 50"
      and range: "0 \<le> d" "d < 10 ^ 21"
      by blast
    have small: "\<bar>d\<bar> < 10 ^ 21" using range by simp
    have r: "reportedEnergy ?c = Inr (JStr (decimalText d 3))"
      by (simp only: b p(1) d toFixed_small [OF small])
    have near: "\<bar>decimalValue (decimalText d 3) - d\<bar> \<le> 1 / 2000"
      using decimalText_nearest [of 3 d] by simp
    have shape: "\<exists>a b. decimalText d 3 = a @ ''.'' @ b \<and> length b = 3"
      by (rule decimalText_shape) simp
    from r d err near shape show ?thesis by blast
  qed
  have e: "reportedEnergy ?c = Inr (JStr ''22.000'')"
    if "CHARGING_POWER_KW ext = Finite 22" "?ms = 3600000"
  proof -
    have "toFixed ext (Finite 22) 3 = ''22.000''"
      by (simp add: toFixed_small decimalText_22)
    then show ?thesis
      by (simp only: b that energy_3600000)
  qed
  show ?thesis
    using a b c e by blast
qed

theorem telemetry_reports_energy_witness:
  "timers hourLater 0 = Some \<lparr>intervalMs = 60000, timerTransactionId = 7, timerConnectorId = 1\<rparr>
   \<and> transactions hourLater (toString 7)
       = Some \<lparr>transactionId = 7, txMeterValue = Finite 0, startedAt = 0, connectorId = 1,
               meterValuesTimer = Some 0\<rparr>
   \<and> CHARGING_POWER_KW acceptAll = Finite 22
   \<and> now hourLater - 0 = 3600000
   \<and> reportedEnergy (meterValuesCall acceptAll hourLater ''id-9'' 7 1) = Inr (JStr ''22.000'')
   \<and> (\<exists>d. divideBy (mulD (divideBy (roundD (of_int 3600000)) 1000) (Finite 22)) 3600 = Finite d
          \<and> \<bar>d - 22\<bar> \<le> 22 / 2 ^ 50
          \<and> \<bar>decimalValue ''22.000'' - d\<bar> \<le> 1 / 2000)
   \<and> transmitted (snd (fireTimer acceptAll hourLater ''id-9'' 0))
       = [JArr [JNum 2, JStr ''id-9'', JStr ''MeterValues'',
            JObj [(''connectorId'', JNum 1), (''transactionId'', JNum 7),
                  (''meterValue'',
                   JArr [JObj [(''timestamp'', JNum 3600000),
                               (''sampledValue'',
                                JArr [JObj [(''value'', JStr ''22.000''),
                                            (''measurand'', JStr ''Energy.Active.Import.Register''),
                                            (''unit'', JStr ''kWh'')]])]])]]]"
proof -
  let ?tm = "\<lparr>intervalMs = 60000, timerTransactionId = 7, timerConnectorId = 1\<rparr>"
  let ?t = "\<lparr>transactionId = 7, txMeterValue = Finite 0, startedAt = 0, connectorId = 1,
               meterValuesTimer = Some 0\<rparr>"
  let ?c = "meterValuesCall acceptAll hourLater ''id-9'' 7 1"
  have a: "timers hourLater 0 = Some ?tm"
    by (simp add: hourLater_def sessionAfter_timer)
  have s: "transactions hourLater (toString 7) = Some ?t"
    by (simp add: hourLater_def sessionAfter_session)
  have b: "transactions hourLater (toString (timerTransactionId ?tm)) = Some ?t"
    by (simp add: s)
  have p: "CHARGING_POWER_KW acceptAll = Finite 22"
    by (rule acceptAll_frame)
  have n: "now hourLater - startedAt ?t = 3600000"
    by (simp add: hourLater_def sessionAfter_frame)
  note r = telemetry_reports_energy [OF a b, where ext = acceptAll and mid = "''id-9''"]
  have f: "fireTimer acceptAll hourLater ''id-9'' 0 = send acceptAll hourLater ?c"
    using conjunct1 [OF r] by simp
  have e: "reportedEnergy ?c = Inr (JStr ''22.000'')"
    using conjunct2 [OF conjunct2 [OF conjunct2 [OF r]]] p n by simp
  have "\<exists>s d. reportedEnergy ?c = Inr (JStr s)
           \<and> divideBy (mulD (divideBy (roundD (of_int 3600000)) 1000) (Finite 22)) 3600 = Finite d
           \<and> \<bar>d - of_int 3600000 / 1000 * 22 / 3600\<bar> \<le> of_int 3600000 / 1000 * 22 / 3600 / 2 ^ 50
           \<and> \<bar>decimalValue s - d\<bar> \<le> 1 / 2000
           \<and> (\<exists>a b. s = a @ ''.'' @ b \<and> length b = 3)"
    using conjunct1 [OF conjunct2 [OF conjunct2 [OF r]]] p
    by (simp only: n) simp
  then have q: "\<exists>d. divideBy (mulD (divideBy (roundD (of_int 3600000)) 1000) (Finite 22)) 3600
                       = Finite d
                  \<and> \<bar>d - 22\<bar> \<le> 22 / 2 ^ 50
                  \<and> \<bar>decimalValue ''22.000'' - d\<bar> \<le> 1 / 2000"
    using e by auto
  have x: "transmitted (snd (fireTimer acceptAll hourLater ''id-9'' 0))
       = [JArr [JNum 2, JStr ''id-9'', JStr ''MeterValues'',
            JObj [(''connectorId'', JNum 1), (''transactionId'', JNum 7),
                  (''meterValue'',
                   JArr [JObj [(''timestamp'', JNum 3600000),
                               (''sampledValue'',
                                JArr [JObj [(''value'', JStr ''22.000''),
                                            (''measurand'', JStr ''Energy.Active.Import.Register''),
                                            (''unit'', JStr ''kWh'')]])]])]]]"
    using reading_sessionAfter(2) [OF energy_3600000 _ decimalText_22]
    by (simp add: hourLater_def)
  show ?thesis
    using a s p n e q x by simp
qed

text \<open>
  C6, as the specification has it, fails: the reading is the text of the double, not of
  the exact quantity. At 22 kW, 58.5 s after the start, the energy is exactly 0.3575 kWh,
  which written with three decimals (the nearest, and on a tie the larger, as
  \<^verbatim>\<open>toFixed\<close> rounds, or the even one) is \<^verbatim>\<open>0.358\<close>. The frame that goes out
  reads \<^verbatim>\<open>0.357\<close>: the double computed for \<^verbatim>\<open>58.5 * 22 / 3600\<close> lies below
  0.3575. Nor is the reading the exact quantity cut after three decimals: 62.1 s after the
  start the energy is exactly 0.3795 kWh and the reading is \<^verbatim>\<open>0.380\<close>.
\<close>

theorem telemetry_reading_follows_the_double:
  "transactions (sessionAfter 58500) (toString 7)
     = Some \<lparr>transactionId = 7, txMeterValue = Finite 0, startedAt = 0, connectorId = 1,
             meterValuesTimer = Some 0\<rparr>
   \<and> timers (sessionAfter 58500) 0
       = Some \<lparr>intervalMs = 60000, timerTransactionId = 7, timerConnectorId = 1\<rparr>
   \<and> now (sessionAfter 58500) = 58500
   \<and> CHARGING_POWER_KW acceptAll = Finite 22
   \<and> transmitted (snd (fireTimer acceptAll (sessionAfter 58500) ''id-9'' 0))
       = [JArr [JNum 2, JStr ''id-9'', JStr ''MeterValues'',
            JObj [(''connectorId'', JNum 1), (''transactionId'', JNum 7),
                  (''meterValue'',
                   JArr [JObj [(''timestamp'', JNum 58500),
                               (''sampledValue'',
                                JArr [JObj [(''value'', JStr ''0.357''),
                                            (''measurand'', JStr ''Energy.Active.Import.Register''),
                                            (''unit'', JStr ''kWh'')]])]])]]]
   \<and> reportedEnergy (meterValuesCall acceptAll (sessionAfter 58500) ''id-9'' 7 1)
       = Inr (JStr ''0.357'')
   \<and> specifiedReading (58500 / 1000) 22 = ''0.358''
   \<and> (58500 / 1000 * 22 / 3600 :: rat) = 3575 / 10000
   \<and> reportedEnergy (meterValuesCall acceptAll (sessionAfter 62100) ''id-9'' 7 1)
       = Inr (JStr ''0.380'')
   \<and> (62100 / 1000 * 22 / 3600 :: rat) = 3795 / 10000"
proof -
  have small: "\<bar>of_int 6440147467139809 * 2 powi (- 54) :: rat\<bar> < 10 ^ 21"
      "\<bar>of_int 6836464234348413 * 2 powi (- 54) :: rat\<bar> < 10 ^ 21"
    by simp_all
  note down = reading_sessionAfter [OF energy_58500 small(1) decimalText_58500]
  note up = reading_sessionAfter [OF energy_62100 small(2) decimalText_62100]
  have spec: "specifiedReading (58500 / 1000) 22 = ''0.358''"
    using decimalText_3 [where x = "58500 / 1000 * 22 / 3600" and n = 358]
    by (simp add: specifiedReading_def digits_eval)
  have frame: "transmitted (snd (fireTimer acceptAll (sessionAfter 58500) ''id-9'' 0))
       = [JArr [JNum 2, JStr ''id-9'', JStr ''MeterValues'',
            JObj [(''connectorId'', JNum 1), (''transactionId'', JNum 7),
                  (''meterValue'',
                   JArr [JObj [(''timestamp'', JNum 58500),
                               (''sampledValue'',
                                JArr [JObj [(''value'', JStr ''0.357''),
                                            (''measurand'', JStr ''Energy.Active.Import.Register''),
                                            (''unit'', JStr ''kWh'')]])]])]]]"
    using down(2) by simp
  show ?thesis
    using down(1) up(1) spec frame
    by (simp add: sessionAfter_session sessionAfter_timer sessionAfter_frame acceptAll_frame)
qed

subsection \<open>Timers and sessions\<close>

lemma inv_fresh: "sessionsHaveTimers (newVCP opts t)"
  by (simp add: sessionsHaveTimers_def newVCP_def)

lemma inv_connect: "sessionsHaveTimers w \<Longrightarrow> sessionsHaveTimers (snd (connect w))"
  by (simp add: sessionsHaveTimers_def connect_def Let_def emit_def)

lemma inv_advance: "sessionsHaveTimers w \<Longrightarrow> sessionsHaveTimers (advance w ms)"
  by (simp add: sessionsHaveTimers_def advance_def)

lemma session_timer_old:
  assumes "sessionsHaveTimers w" and "transactions w k = Some s"
  shows "\<exists>h. meterValuesTimer s = Some h \<and> h < nextTimer w
           \<and> timers w h = Some \<lparr>intervalMs = METER_VALUES_INTERVAL_SEC * 1000,
                                  timerTransactionId = transactionId s,
                                  timerConnectorId = connectorId s\<rparr>
           \<and> k = toString (transactionId s)"
  using assms unfolding sessionsHaveTimers_def by blast

lemma session_timer_inj:
  assumes "sessionsHaveTimers w" and "transactions w k = Some s" and "transactions w k' = Some s'"
    and "meterValuesTimer s = meterValuesTimer s'"
  shows "k = k'"
  using assms unfolding sessionsHaveTimers_def by blast

lemma timer_bound:
  assumes "sessionsHaveTimers w" and "timers w h = Some tm"
  shows "h < nextTimer w"
  using assms unfolding sessionsHaveTimers_def by blast

lemma inv_start:
  assumes inv: "sessionsHaveTimers w"
  shows "sessionsHaveTimers (startTransaction w tid cid)"
proof -
  let ?w = "startTransaction w tid cid"
  let ?s = "\<lparr>transactionId = tid, txMeterValue = Finite 0, startedAt = now w, connectorId = cid,
             meterValuesTimer = Some (nextTimer w)\<rparr>"
  let ?tm = "\<lparr>intervalMs = METER_VALUES_INTERVAL_SEC * 1000, timerTransactionId = tid,
              timerConnectorId = cid\<rparr>"
  have tr: "transactions ?w = (transactions w)(toString tid \<mapsto> ?s)"
    and ti: "timers ?w = (timers w)(nextTimer w \<mapsto> ?tm)"
    and nx: "nextTimer ?w = Suc (nextTimer w)"
    by (simp_all add: startTransaction_def setInterval_def)
  have a: "k = toString (transactionId s)
         \<and> (\<exists>h. meterValuesTimer s = Some h
               \<and> timers ?w h = Some \<lparr>intervalMs = METER_VALUES_INTERVAL_SEC * 1000,
                                      timerTransactionId = transactionId s,
                                      timerConnectorId = connectorId s\<rparr>)"
    if "transactions ?w k = Some s" for k s
  proof (cases "k = toString tid")
    case True
    with that have "s = ?s" by (simp add: tr)
    then show ?thesis using True by (simp add: ti)
  next
    case False
    with that have old: "transactions w k = Some s" by (simp add: tr)
    from session_timer_old [OF inv old] obtain h where
      h: "meterValuesTimer s = Some h" "h < nextTimer w"
         "timers w h = Some \<lparr>intervalMs = METER_VALUES_INTERVAL_SEC * 1000,
                                  timerTransactionId = transactionId s,
                                  timerConnectorId = connectorId s\<rparr>"
         "k = toString (transactionId s)"
      by blast
    then show ?thesis by (auto simp add: ti)
  qed
  have b: "h < nextTimer ?w" if "timers ?w h = Some tm" for h tm
  proof (cases "h = nextTimer w")
    case True
    then show ?thesis by (simp add: nx)
  next
    case False
    with that have "timers w h = Some tm" by (simp add: ti)
    from timer_bound [OF inv this] show ?thesis by (simp add: nx)
  qed
  have fresh: "meterValuesTimer s \<noteq> Some (nextTimer w)" if "transactions w k = Some s" for k s
    using session_timer_old [OF inv that] by auto
  have c: "k = k'"
    if "transactions ?w k = Some s" and "transactions ?w k' = Some s'"
      and "meterValuesTimer s = meterValuesTimer s'" for k k' s s'
  proof (cases "k = toString tid")
    case True
    show ?thesis
    proof (cases "k' = toString tid")
      case True
      with \<open>k = toString tid\<close> show ?thesis by simp
    next
      case False
      with that have "transactions w k' = Some s'" by (simp add: tr)
      from fresh [OF this] that True have False by (auto simp add: tr)
      then show ?thesis ..
    qed
  next
    case False
    with that have k: "transactions w k = Some s" by (simp add: tr)
    show ?thesis
    proof (cases "k' = toString tid")
      case True
      from fresh [OF k] that True have False by (auto simp add: tr)
      then show ?thesis ..
    next
      case False
      with that have "transactions w k' = Some s'" by (simp add: tr)
      from session_timer_inj [OF inv k this that(3)] show ?thesis .
    qed
  qed
  show ?thesis
    unfolding sessionsHaveTimers_def using a b c by blast
qed

lemma inv_stop:
  assumes inv: "sessionsHaveTimers w"
  shows "sessionsHaveTimers (stopTransaction w tid)"
proof (cases "transactions w (toString tid)")
  case None
  then have "stopTransaction w tid = w"
    by (simp add: stopTransaction_def fun_upd_idem)
  with inv show ?thesis by simp
next
  case (Some s0)
  let ?w = "stopTransaction w tid"
  from session_timer_old [OF inv Some] obtain h0 where
    h0: "meterValuesTimer s0 = Some h0"
    by blast
  have tr: "transactions ?w = (transactions w)(toString tid := None)"
    and ti: "timers ?w = (timers w)(h0 := None)"
    and nx: "nextTimer ?w = nextTimer w"
    using Some h0 by (simp_all add: stopTransaction_def clearInterval_def Let_def)
  have old: "transactions w k = Some s \<and> k \<noteq> toString tid"
    if "transactions ?w k = Some s" for k s
    using that by (simp add: tr split: if_splits)
  have a: "k = toString (transactionId s)
         \<and> (\<exists>h. meterValuesTimer s = Some h
               \<and> timers ?w h = Some \<lparr>intervalMs = METER_VALUES_INTERVAL_SEC * 1000,
                                      timerTransactionId = transactionId s,
                                      timerConnectorId = connectorId s\<rparr>)"
    if "transactions ?w k = Some s" for k s
  proof -
    from old [OF that] have k: "transactions w k = Some s" and ne: "k \<noteq> toString tid"
      by simp_all
    from session_timer_old [OF inv k] obtain h where
      h: "meterValuesTimer s = Some h"
         "timers w h = Some \<lparr>intervalMs = METER_VALUES_INTERVAL_SEC * 1000,
                                  timerTransactionId = transactionId s,
                                  timerConnectorId = connectorId s\<rparr>"
         "k = toString (transactionId s)"
      by blast
    have "h \<noteq> h0"
    proof
      assume "h = h0"
      then have "meterValuesTimer s = meterValuesTimer s0" using h h0 by simp
      from session_timer_inj [OF inv k Some this] ne show False by simp
    qed
    then show ?thesis using h by (auto simp add: ti)
  qed
  have b: "h < nextTimer ?w" if "timers ?w h = Some tm" for h tm
  proof -
    from that have "timers w h = Some tm" by (simp add: ti split: if_splits)
    from timer_bound [OF inv this] show ?thesis by (simp add: nx)
  qed
  have c: "k = k'"
    if "transactions ?w k = Some s" and "transactions ?w k' = Some s'"
      and "meterValuesTimer s = meterValuesTimer s'" for k k' s s'
    using session_timer_inj [OF inv _ _ that(3)] old [OF that(1)] old [OF that(2)] by blast
  show ?thesis
    unfolding sessionsHaveTimers_def using a b c by blast
qed

lemma reachable_sessionsHaveTimers: "reachable w \<Longrightarrow> sessionsHaveTimers w"
  by (induction rule: reachable.induct)
    (simp_all add: inv_fresh inv_connect inv_advance inv_start inv_stop)

lemma leakedWorld_frame:
  "ws leakedWorld \<noteq> None" "ocppOutbox leakedWorld k = None"
  "adminWs leakedWorld = Some (WebSocketServer 9999)"
  "trace leakedWorld = [LogConnecting]" "now leakedWorld = 0"
  by (simp_all add: leakedWorld_def stopTransaction_def startTransaction_def setInterval_def
        clearInterval_def input_defs emit_def Let_def toString_7)

text \<open>
  C7 fails on the code. One half holds in every reachable state: a session in the table
  has its timer active (\<open>reachable_sessionsHaveTimers\<close>). The other half does not:
  \<^verbatim>\<open>startTransaction\<close> on an id that already has a session
  overwrites the session and with it the only reference to the first timer. After
  \<^verbatim>\<open>startTransaction(vcp, 7, 1)\<close> twice and \<^verbatim>\<open>stopTransaction(7)\<close> once, no session 7
  is in the table, yet timer 0 is still active for transaction 7, and when it fires a
  \<^verbatim>\<open>MeterValues\<close> frame for transaction 7 goes out, reading \<^verbatim>\<open>0.000\<close>.
\<close>

theorem timer_outlives_session:
  "transactions leakedWorld (toString 7) = None
   \<and> timers leakedWorld 0
       = Some \<lparr>intervalMs = 60000, timerTransactionId = 7, timerConnectorId = 1\<rparr>
   \<and> transmitted (snd (fireTimer acceptAll leakedWorld ''id-9'' 0))
       = [JArr [JNum 2, JStr ''id-9'', JStr ''MeterValues'',
            JObj [(''connectorId'', JNum 1), (''transactionId'', JNum 7),
                  (''meterValue'',
                   JArr [JObj [(''timestamp'', JNum 0),
                               (''sampledValue'',
                                JArr [JObj [(''value'', JStr ''0.000''),
                                            (''measurand'', JStr ''Energy.Active.Import.Register''),
                                            (''unit'', JStr ''kWh'')]])]])]]]"
proof -
  have s: "transactions leakedWorld (toString 7) = None"
    by (simp add: leakedWorld_def stopTransaction_def Let_def)
  have t: "timers leakedWorld 0
       = Some \<lparr>intervalMs = 60000, timerTransactionId = 7, timerConnectorId = 1\<rparr>"
    by (simp add: leakedWorld_def stopTransaction_def startTransaction_def setInterval_def
        clearInterval_def input_defs emit_def Let_def METER_VALUES_INTERVAL_SEC_def)
  have c: "meterValuesCall acceptAll leakedWorld ''id-9'' 7 1
     = \<lparr>messageId = JStr ''id-9'', action = JStr ''MeterValues'',
        payload =
          JObj [(''connectorId'', JNum 1), (''transactionId'', JNum 7),
                (''meterValue'',
                 JArr [JObj [(''timestamp'', JNum 0),
                             (''sampledValue'',
                              JArr [JObj [(''value'', JStr ''0.000''),
                                          (''measurand'', JStr ''Energy.Active.Import.Register''),
                                          (''unit'', JStr ''kWh'')]])]])]\<rparr>"
    by (simp add: meterValuesCall_def call_def getMeterValue_def s leakedWorld_frame)
      (simp add: acceptAll_def roundD_0 toFixed_0)
  have f: "fireTimer acceptAll leakedWorld ''id-9'' 0
             = send acceptAll leakedWorld (meterValuesCall acceptAll leakedWorld ''id-9'' 7 1)"
    by (simp add: fireTimer_def t meterValuesTick_def)
  show ?thesis
    apply (simp add: s t f c)
    apply (simp add: eval_defs leakedWorld_frame transmitted_def)
    apply (simp add: acceptAll_def)
    done
qed

end
